theory Spec2Isabelle
  imports Main "HOL-Library.AList"
begin

section \<open>Values, dictionaries and exceptions\<close>

text \<open>
  The token dictionary of \<^verbatim>\<open>WhoopAuth\<close> and every provider response are JSON values as
  \<^verbatim>\<open>json.load\<close> and \<^verbatim>\<open>response.json()\<close> return them. A Python dict is an association
  list in insertion order, read through \<open>map_of\<close>. JSON numbers are integers here:
  floating-point numbers are not part of this embedding.
\<close>

datatype json =
    JNull
  | JBool bool
  | JInt int
  | JStr string
  | JList "json list"
  | JObj "(string \<times> json) list"

type_synonym dict = "(string \<times> json) list"

text \<open>
  The exceptions the code can raise. \<open>ValueError\<close> carries the message of the two explicit
  \<^verbatim>\<open>raise ValueError(...)\<close> statements; \<open>RequestException\<close> is any exception raised by
  \<^verbatim>\<open>requests\<close> itself (no connection, timeout); \<open>HTTPError\<close> is raised by
  \<^verbatim>\<open>raise_for_status\<close> and carries the status code.
\<close>

datatype error =
    ValueError string
  | KeyError string
  | AttributeError
  | TypeError
  | OverflowError
  | RequestException
  | HTTPError nat
  | JSONDecodeError

text \<open>Python truth value of a JSON value (\<^verbatim>\<open>if x:\<close>, \<^verbatim>\<open>not x\<close>).\<close>

fun truthy :: "json \<Rightarrow> bool" where
  "truthy JNull = False"
| "truthy (JBool b) = b"
| "truthy (JInt n) = (n \<noteq> 0)"
| "truthy (JStr s) = (s \<noteq> [])"
| "truthy (JList xs) = (xs \<noteq> [])"
| "truthy (JObj kvs) = (kvs \<noteq> [])"

text \<open>\<^verbatim>\<open>d.get(k, default)\<close> and \<^verbatim>\<open>d[k]\<close> on a dict.\<close>

definition dict_get :: "dict \<Rightarrow> string \<Rightarrow> json \<Rightarrow> json" where
  "dict_get d k dflt = (case map_of d k of None \<Rightarrow> dflt | Some v \<Rightarrow> v)"

definition dict_item :: "dict \<Rightarrow> string \<Rightarrow> error + json" where
  "dict_item d k = (case map_of d k of None \<Rightarrow> Inl (KeyError k) | Some v \<Rightarrow> Inr v)"

text \<open>
  \<^verbatim>\<open>x.get(...)\<close> on a decoded response: only a dict has the method, every other JSON value
  raises \<^verbatim>\<open>AttributeError\<close>.
\<close>

fun as_dict :: "json \<Rightarrow> error + dict" where
  "as_dict (JObj kvs) = Inr kvs"
| "as_dict _ = Inl AttributeError"

section \<open>Dates and durations\<close>

text \<open>
  A naive \<^verbatim>\<open>datetime\<close> is its number of microseconds since \<^verbatim>\<open>datetime.min\<close>
  (0001-01-01T00:00:00); \<^verbatim>\<open>datetime.max\<close> is 9999-12-31T23:59:59.999999. A
  \<^verbatim>\<open>timedelta\<close> is a number of microseconds whose day count is at most 999999999 in
  absolute value. \<^verbatim>\<open>fromisoformat\<close> can also return an offset-aware value, which cannot
  be compared with the naive \<^verbatim>\<open>datetime.now()\<close>.
\<close>

datatype datetime = Naive int | Aware int

definition datetime_max :: int where
  "datetime_max = 315537897600000000 - 1"

definition timedelta_seconds :: "json \<Rightarrow> error + int" where
  "timedelta_seconds x =
     (case x of
        JInt n \<Rightarrow> if \<bar>n div 86400\<bar> > 999999999 then Inl OverflowError else Inr (n * 1000000)
      | JBool b \<Rightarrow> Inr (if b then 1000000 else 0)
      | _ \<Rightarrow> Inl TypeError)"

definition datetime_add :: "int \<Rightarrow> int \<Rightarrow> error + int" where
  "datetime_add t td =
     (if t + td < 0 \<or> datetime_max < t + td then Inl OverflowError else Inr (t + td))"

definition datetime_sub :: "datetime \<Rightarrow> int \<Rightarrow> error + datetime" where
  "datetime_sub d td =
     (case d of
        Naive t \<Rightarrow> if t - td < 0 \<or> datetime_max < t - td then Inl OverflowError
                   else Inr (Naive (t - td))
      | Aware t \<Rightarrow> if t - td < 0 \<or> datetime_max < t - td then Inl OverflowError
                   else Inr (Aware (t - td)))"

text \<open>\<^verbatim>\<open>now >= d\<close> for the naive \<open>now\<close>.\<close>

definition datetime_ge :: "int \<Rightarrow> datetime \<Rightarrow> error + bool" where
  "datetime_ge now d = (case d of Naive t \<Rightarrow> Inr (now \<ge> t) | Aware _ \<Rightarrow> Inl TypeError)"

section \<open>Environment and state\<close>

text \<open>
  A request as \<^verbatim>\<open>requests\<close> sends it. \<open>POST url data\<close> carries the form fields,
  \<open>GET url token params\<close> and \<open>DELETE url token\<close> carry the value formatted into the
  \<^verbatim>\<open>Authorization: Bearer ...\<close> header.
\<close>

datatype request =
    POST string dict
  | GET string json "dict option"
  | DELETE string json

text \<open>
  What a call of \<^verbatim>\<open>requests\<close> gives back: it raises (\<open>Raised\<close>), or it returns a response
  with a status code, a body (\<open>None\<close> when the body is not JSON, so that
  \<^verbatim>\<open>response.json()\<close> raises) and the two rate-limit headers.
\<close>

datatype http_result =
    Raised
  | Response nat "json option" "string option" "string option"

text \<open>
  The environment is everything the code reads and does not own: the values of
  \<^verbatim>\<open>config\<close>, the provider (\<open>net n\<close> answers the \<open>n\<close>-th request the process sends),
  the clock (\<open>clock n\<close> is the \<open>n\<close>-th reading of \<^verbatim>\<open>datetime.now()\<close>) and the
  \<^verbatim>\<open>datetime\<close> string conversions (\<open>fromisoformat\<close> gives \<open>None\<close> where Python raises
  \<^verbatim>\<open>ValueError\<close>).
\<close>

record env =
  client_id :: string
  client_secret :: string
  redirect_uri :: string
  WHOOP_TOKEN_URL :: string
  WHOOP_API_BASE_URL :: string
  net :: "nat \<Rightarrow> http_result"
  clock :: "nat \<Rightarrow> int"
  isoformat :: "int \<Rightarrow> string"
  fromisoformat :: "string \<Rightarrow> datetime option"

text \<open>
  The state is the \<^verbatim>\<open>WhoopAuth\<close> object (\<open>tokens\<close>), the token file on disk
  (\<open>None\<close>: the file does not exist), the two rate-limit fields of \<^verbatim>\<open>WhoopClient\<close>,
  and three observers: the requests sent so far, the number of clock readings so far, and
  the number of times \<^verbatim>\<open>refresh_access_token\<close> has been entered. Reading and writing the
  token file always succeeds.
\<close>

record state =
  tokens :: dict
  token_file :: "dict option"
  rate_limit_remaining :: "string option"
  rate_limit_reset :: "string option"
  sent :: "request list"
  ticks :: nat
  refresh_calls :: nat

definition requests_send :: "env \<Rightarrow> request \<Rightarrow> state \<Rightarrow> http_result \<times> state" where
  "requests_send ev r s = (net ev (length (sent s)), s\<lparr>sent := sent s @ [r]\<rparr>)"

definition datetime_now :: "env \<Rightarrow> state \<Rightarrow> int \<times> state" where
  "datetime_now ev s = (clock ev (ticks s), s\<lparr>ticks := Suc (ticks s)\<rparr>)"

text \<open>\<^verbatim>\<open>response.raise_for_status()\<close> raises for the statuses 400 to 599.\<close>

definition raise_for_status :: "nat \<Rightarrow> error + unit" where
  "raise_for_status st = (if 400 \<le> st \<and> st < 600 then Inl (HTTPError st) else Inr ())"

text \<open>
  \<^verbatim>\<open>response = requests.post(...); response.raise_for_status(); response.json()\<close>
  as one value: the decoded body, or the first exception on the way.
\<close>

definition checked_json :: "http_result \<Rightarrow> error + json" where
  "checked_json r =
     (case r of
        Raised \<Rightarrow> Inl RequestException
      | Response st b rem rst \<Rightarrow>
          (case raise_for_status st of
             Inl err \<Rightarrow> Inl err
           | Inr _ \<Rightarrow> (case b of None \<Rightarrow> Inl JSONDecodeError | Some j \<Rightarrow> Inr j)))"

section \<open>WhoopAuth\<close>

definition load_tokens :: "state \<Rightarrow> dict" where
  "load_tokens s = (case token_file s of Some d \<Rightarrow> d | None \<Rightarrow> [])"

definition save_tokens :: "state \<Rightarrow> state" where
  "save_tokens s = s\<lparr>token_file := Some (tokens s)\<rparr>"

text \<open>
  \<^verbatim>\<open>(datetime.now() + timedelta(seconds=expires_in)).isoformat()\<close>, given the reading of
  the clock.
\<close>

definition expiry_time :: "env \<Rightarrow> int \<Rightarrow> json \<Rightarrow> error + string" where
  "expiry_time ev now expires_in =
     (case timedelta_seconds expires_in of
        Inl err \<Rightarrow> Inl err
      | Inr td \<Rightarrow>
          (case datetime_add now td of
             Inl err \<Rightarrow> Inl err
           | Inr t \<Rightarrow> Inr (isoformat ev t)))"

definition exchange_code_for_token :: "env \<Rightarrow> string \<Rightarrow> state \<Rightarrow> (error + dict) \<times> state" where
  "exchange_code_for_token ev code s =
     (let data = [(''grant_type'', JStr ''authorization_code''),
                  (''code'', JStr code),
                  (''client_id'', JStr (client_id ev)),
                  (''client_secret'', JStr (client_secret ev)),
                  (''redirect_uri'', JStr (redirect_uri ev))];
          (response, s1) = requests_send ev (POST (WHOOP_TOKEN_URL ev) data) s
      in case checked_json response of
           Inl err \<Rightarrow> (Inl err, s1)
         | Inr token_json \<Rightarrow>
             (case as_dict token_json of
                Inl err \<Rightarrow> (Inl err, s1)
              | Inr token_data \<Rightarrow>
                  (let expires_in = dict_get token_data ''expires_in'' (JInt 3600);
                       (now, s2) = datetime_now ev s1
                   in case expiry_time ev now expires_in of
                        Inl err \<Rightarrow> (Inl err, s2)
                      | Inr expiry \<Rightarrow>
                          (case dict_item token_data ''access_token'' of
                             Inl err \<Rightarrow> (Inl err, s2)
                           | Inr access \<Rightarrow>
                               (let new_tokens =
                                      [(''access_token'', access),
                                       (''refresh_token'', dict_get token_data ''refresh_token'' JNull),
                                       (''expires_at'', JStr expiry),
                                       (''token_type'', dict_get token_data ''token_type'' (JStr ''Bearer''))];
                                    s3 = save_tokens (s2\<lparr>tokens := new_tokens\<rparr>)
                                in (Inr new_tokens, s3))))))"

definition refresh_access_token :: "env \<Rightarrow> state \<Rightarrow> (error + dict) \<times> state" where
  "refresh_access_token ev s0 =
     (let s = s0\<lparr>refresh_calls := Suc (refresh_calls s0)\<rparr> in
      if \<not> truthy (dict_get (tokens s) ''refresh_token'' JNull)
      then (Inl (ValueError ''No refresh token available. Please re-authenticate.''), s)
      else
        (let old_refresh = dict_get (tokens s) ''refresh_token'' JNull;
             data = [(''grant_type'', JStr ''refresh_token''),
                     (''refresh_token'', old_refresh),
                     (''client_id'', JStr (client_id ev)),
                     (''client_secret'', JStr (client_secret ev))];
             (response, s1) = requests_send ev (POST (WHOOP_TOKEN_URL ev) data) s
         in case checked_json response of
              Inl err \<Rightarrow> (Inl err, s1)
            | Inr token_json \<Rightarrow>
                (case as_dict token_json of
                   Inl err \<Rightarrow> (Inl err, s1)
                 | Inr token_data \<Rightarrow>
                     (let expires_in = dict_get token_data ''expires_in'' (JInt 3600);
                          (now, s2) = datetime_now ev s1
                      in case expiry_time ev now expires_in of
                           Inl err \<Rightarrow> (Inl err, s2)
                         | Inr expiry \<Rightarrow>
                             (case dict_item token_data ''access_token'' of
                                Inl err \<Rightarrow> (Inl err, s2)
                              | Inr access \<Rightarrow>
                                  (let new_tokens =
                                         [(''access_token'', access),
                                          (''refresh_token'', dict_get token_data ''refresh_token'' old_refresh),
                                          (''expires_at'', JStr expiry),
                                          (''token_type'', dict_get token_data ''token_type'' (JStr ''Bearer''))];
                                       s3 = save_tokens (s2\<lparr>tokens := new_tokens\<rparr>)
                                   in (Inr new_tokens, s3)))))))"

text \<open>\<^verbatim>\<open>datetime.fromisoformat(x)\<close> on a value of the token dictionary.\<close>

definition py_fromisoformat :: "env \<Rightarrow> json \<Rightarrow> error + datetime" where
  "py_fromisoformat ev x =
     (case x of
        JStr str \<Rightarrow>
          (case fromisoformat ev str of
             None \<Rightarrow> Inl (ValueError ''Invalid isoformat string'')
           | Some d \<Rightarrow> Inr d)
      | _ \<Rightarrow> Inl TypeError)"

definition get_valid_access_token :: "env \<Rightarrow> state \<Rightarrow> (error + json) \<times> state" where
  "get_valid_access_token ev s =
     (if \<not> truthy (dict_get (tokens s) ''access_token'' JNull)
      then (Inl (ValueError ''No access token available. Please authenticate first.''), s)
      else
        (case dict_item (tokens s) ''expires_at'' of
           Inl err \<Rightarrow> (Inl err, s)
         | Inr expires_at \<Rightarrow>
             (case py_fromisoformat ev expires_at of
                Inl err \<Rightarrow> (Inl err, s)
              | Inr expiry \<Rightarrow>
                  (let (now, s1) = datetime_now ev s
                   in case datetime_sub expiry 300000000 of
                        Inl err \<Rightarrow> (Inl err, s1)
                      | Inr limit \<Rightarrow>
                          (case datetime_ge now limit of
                             Inl err \<Rightarrow> (Inl err, s1)
                           | Inr expiring \<Rightarrow>
                               if expiring
                               then (case refresh_access_token ev s1 of
                                       (Inl err, s2) \<Rightarrow> (Inl err, s2)
                                     | (Inr _, s2) \<Rightarrow> (dict_item (tokens s2) ''access_token'', s2))
                               else (dict_item (tokens s1) ''access_token'', s1))))))"

definition is_authenticated :: "state \<Rightarrow> bool" where
  "is_authenticated s =
     (truthy (dict_get (tokens s) ''access_token'' JNull) \<and>
      truthy (dict_get (tokens s) ''refresh_token'' JNull))"

text \<open>
  \<^verbatim>\<open>revoke_access\<close>: the outcome of the \<^verbatim>\<open>DELETE\<close> is not looked at, and an exception
  raised by \<^verbatim>\<open>requests.delete\<close> is caught and printed.
\<close>

definition revoke_access :: "env \<Rightarrow> state \<Rightarrow> (error + unit) \<times> state" where
  "revoke_access ev s =
     (let s1 = (if truthy (dict_get (tokens s) ''access_token'' JNull)
                then (case requests_send ev
                             (DELETE (WHOOP_API_BASE_URL ev @ ''/v2/user/access'')
                                     (dict_get (tokens s) ''access_token'' JNull)) s of
                        (Raised, s') \<Rightarrow> s'
                      | (Response st b rem rst, s') \<Rightarrow> s')
                else s);
          s2 = s1\<lparr>tokens := []\<rparr>;
          s3 = (case token_file s2 of Some d \<Rightarrow> s2\<lparr>token_file := None\<rparr> | None \<Rightarrow> s2)
      in (Inr (), s3))"

section \<open>WhoopClient\<close>

definition make_request :: "env \<Rightarrow> string \<Rightarrow> dict option \<Rightarrow> state \<Rightarrow> (error + json) \<times> state" where
  "make_request ev endpoint params s =
     (case get_valid_access_token ev s of
        (Inl err, s1) \<Rightarrow> (Inl err, s1)
      | (Inr access_token, s1) \<Rightarrow>
          (let url = WHOOP_API_BASE_URL ev @ endpoint;
               (response, s2) = requests_send ev (GET url access_token params) s1
           in case response of
                Raised \<Rightarrow> (Inl RequestException, s2)
              | Response st b rem rst \<Rightarrow>
                  (let s3 = s2\<lparr>rate_limit_remaining := rem, rate_limit_reset := rst\<rparr>
                   in case raise_for_status st of
                        Inl err \<Rightarrow> (Inl err, s3)
                      | Inr _ \<Rightarrow>
                          (case b of
                             None \<Rightarrow> (Inl JSONDecodeError, s3)
                           | Some j \<Rightarrow> (Inr j, s3)))))"

text \<open>
  The Python operations \<^verbatim>\<open>_paginate_request\<close> applies to a decoded response:
  \<^verbatim>\<open>x.get(k, default)\<close>, \<^verbatim>\<open>all_records.extend(x)\<close> (a list gives its elements, a string
  its characters, a dict its keys, anything else is not iterable), \<^verbatim>\<open>isinstance\<close> and
  \<^verbatim>\<open>len\<close>.
\<close>

definition py_get :: "json \<Rightarrow> string \<Rightarrow> json \<Rightarrow> error + json" where
  "py_get x k dflt = (case as_dict x of Inl err \<Rightarrow> Inl err | Inr d \<Rightarrow> Inr (dict_get d k dflt))"

fun py_extend :: "json list \<Rightarrow> json \<Rightarrow> error + json list" where
  "py_extend acc (JList xs) = Inr (acc @ xs)"
| "py_extend acc (JStr str) = Inr (acc @ map (\<lambda>c. JStr [c]) str)"
| "py_extend acc (JObj kvs) = Inr (acc @ map (\<lambda>kv. JStr (fst kv)) kvs)"
| "py_extend acc _ = Inl TypeError"

fun is_list :: "json \<Rightarrow> bool" where
  "is_list (JList xs) = True"
| "is_list _ = False"

fun is_dict :: "json \<Rightarrow> bool" where
  "is_dict (JObj kvs) = True"
| "is_dict _ = False"

fun py_len :: "json \<Rightarrow> nat" where
  "py_len (JObj kvs) = length kvs"
| "py_len (JList xs) = length xs"
| "py_len (JStr str) = length str"
| "py_len _ = 0"

text \<open>
  The part of the loop body that looks at the shape of one response (the statements from
  \<^verbatim>\<open>records = response.get('records', [])\<close> to \<^verbatim>\<open>all_records.extend(records)\<close>): the
  new \<^verbatim>\<open>all_records\<close>, and whether a \<^verbatim>\<open>break\<close> was taken.
\<close>

definition handle_page :: "json list \<Rightarrow> json \<Rightarrow> error + (bool \<times> json list)" where
  "handle_page all_records response =
     (case py_get response ''records'' (JList []) of
        Inl err \<Rightarrow> Inl err
      | Inr records \<Rightarrow>
          if \<not> truthy records then
            (if is_list response then
               (case py_extend all_records response of
                  Inl err \<Rightarrow> Inl err
                | Inr all1 \<Rightarrow> Inr (True, all1))
             else if is_dict response \<and> py_len response > 0 then
               Inr (True, all_records @ [response])
             else Inr (False, all_records))
          else
            (case py_extend all_records records of
               Inl err \<Rightarrow> Inl err
             | Inr all1 \<Rightarrow> Inr (False, all1)))"

text \<open>
  The \<^verbatim>\<open>while True\<close> loop. It need not end (a provider may hand out continuation tokens
  forever), so the result is an option and \<open>None\<close> is the loop that never returns.
\<close>

partial_function (option) paginate_loop ::
  "env \<Rightarrow> string \<Rightarrow> dict \<Rightarrow> json list \<Rightarrow> json \<Rightarrow> state \<Rightarrow> ((error + json list) \<times> state) option" where
  "paginate_loop ev endpoint params all_records next_token s =
     (let params1 = (if truthy next_token then AList.update ''nextToken'' next_token params
                     else params)
      in case make_request ev endpoint (Some params1) s of
           (Inl err, s1) \<Rightarrow> Some (Inl err, s1)
         | (Inr response, s1) \<Rightarrow>
             (case handle_page all_records response of
                Inl err \<Rightarrow> Some (Inl err, s1)
              | Inr (stop, all1) \<Rightarrow>
                  if stop then Some (Inr all1, s1)
                  else
                    (case py_get response ''next_token'' JNull of
                       Inl err \<Rightarrow> Some (Inl err, s1)
                     | Inr next_token1 \<Rightarrow>
                         if \<not> truthy next_token1 then Some (Inr all1, s1)
                         else paginate_loop ev endpoint params1 all1 next_token1 s1)))"

definition paginate_request ::
  "env \<Rightarrow> string \<Rightarrow> dict option \<Rightarrow> int \<Rightarrow> state \<Rightarrow> ((error + json list) \<times> state) option" where
  "paginate_request ev endpoint params limit s =
     (let params0 = (case params of None \<Rightarrow> [] | Some p \<Rightarrow> p);
          params1 = AList.update ''limit'' (JInt (min limit 25)) params0
      in paginate_loop ev endpoint params1 [] JNull s)"

definition get_user_profile :: "env \<Rightarrow> state \<Rightarrow> (error + json) \<times> state" where
  "get_user_profile ev s = make_request ev ''/v2/user/profile/basic'' None s"

definition get_recovery_data ::
  "env \<Rightarrow> string \<Rightarrow> string \<Rightarrow> state \<Rightarrow> ((error + json list) \<times> state) option" where
  "get_recovery_data ev start end s =
     paginate_request ev ''/v2/recovery'' (Some [(''start'', JStr start), (''end'', JStr end)]) 25 s"

definition get_sleep_data ::
  "env \<Rightarrow> string \<Rightarrow> string \<Rightarrow> state \<Rightarrow> ((error + json list) \<times> state) option" where
  "get_sleep_data ev start end s =
     paginate_request ev ''/v2/activity/sleep'' (Some [(''start'', JStr start), (''end'', JStr end)]) 25 s"

definition get_cycle_data ::
  "env \<Rightarrow> string \<Rightarrow> string \<Rightarrow> state \<Rightarrow> ((error + json list) \<times> state) option" where
  "get_cycle_data ev start end s =
     paginate_request ev ''/v2/cycle'' (Some [(''start'', JStr start), (''end'', JStr end)]) 25 s"

definition get_workout_data ::
  "env \<Rightarrow> string \<Rightarrow> string \<Rightarrow> state \<Rightarrow> ((error + json list) \<times> state) option" where
  "get_workout_data ev start end s =
     paginate_request ev ''/v2/activity/workout'' (Some [(''start'', JStr start), (''end'', JStr end)]) 25 s"

text \<open>
  One \<^verbatim>\<open>try: data[key] = fetch(...) except Exception: print(...)\<close> block of
  \<^verbatim>\<open>get_all_health_data\<close>: a fetch that raised leaves the entry as it was.
\<close>

definition try_store ::
  "string \<Rightarrow> error + json list \<Rightarrow> (string \<times> json list) list \<Rightarrow> (string \<times> json list) list" where
  "try_store key outcome data =
     (case outcome of
        Inl err \<Rightarrow> data
      | Inr records \<Rightarrow> AList.update key records data)"

definition get_all_health_data ::
  "env \<Rightarrow> string \<Rightarrow> string \<Rightarrow> state \<Rightarrow> ((error + (string \<times> json list) list) \<times> state) option" where
  "get_all_health_data ev start end s =
     (let start_dt = start @ ''T00:00:00.000Z'';
          end_dt = end @ ''T23:59:59.999Z'';
          data = [(''recovery'', []), (''sleep'', []), (''cycles'', []), (''workouts'', [])]
      in case get_recovery_data ev start_dt end_dt s of
           None \<Rightarrow> None
         | Some (r1, s1) \<Rightarrow>
             (let data1 = try_store ''recovery'' r1 data
              in case get_sleep_data ev start_dt end_dt s1 of
                   None \<Rightarrow> None
                 | Some (r2, s2) \<Rightarrow>
                     (let data2 = try_store ''sleep'' r2 data1
                      in case get_cycle_data ev start_dt end_dt s2 of
                           None \<Rightarrow> None
                         | Some (r3, s3) \<Rightarrow>
                             (let data3 = try_store ''cycles'' r3 data2
                              in case get_workout_data ev start_dt end_dt s3 of
                                   None \<Rightarrow> None
                                 | Some (r4, s4) \<Rightarrow>
                                     (let data4 = try_store ''workouts'' r4 data3
                                      in Some (Inr data4, s4))))))"

section \<open>The OAuth callback route\<close>

text \<open>
  The five \<^verbatim>\<open>return\<close> statements of \<^verbatim>\<open>callback\<close>, one constructor each, with the
  HTTP status each one sends. \<open>args\<close> is the query string (\<^verbatim>\<open>request.args\<close>) and
  \<open>session\<close> the Flask session; \<^verbatim>\<open>.get\<close> on either gives \<open>None\<close> for a missing key.
\<close>

datatype callback_result =
    InvalidState
  | ErrorParameter string
  | NoCode
  | RedirectHome
  | ExchangeFailed error

fun status_code :: "callback_result \<Rightarrow> nat" where
  "status_code InvalidState = 400"
| "status_code (ErrorParameter e) = 400"
| "status_code NoCode = 400"
| "status_code RedirectHome = 302"
| "status_code (ExchangeFailed err) = 500"

definition callback ::
  "env \<Rightarrow> (string \<times> string) list \<Rightarrow> (string \<times> string) list \<Rightarrow> state \<Rightarrow> callback_result \<times> state" where
  "callback ev args session s =
     (let state = map_of args ''state'' in
      if state \<noteq> map_of session ''oauth_state'' then (InvalidState, s)
      else
        (case map_of args ''error'' of
           Some (c # cs) \<Rightarrow> (ErrorParameter (c # cs), s)
         | _ \<Rightarrow>
             (case map_of args ''code'' of
                Some (c # cs) \<Rightarrow>
                  (case exchange_code_for_token ev (c # cs) s of
                     (Inl err, s1) \<Rightarrow> (ExchangeFailed err, s1)
                   | (Inr tokens1, s1) \<Rightarrow> (RedirectHome, s1))
              | _ \<Rightarrow> (NoCode, s))))"

section \<open>Vocabulary of the properties\<close>

text \<open>The one request \<^verbatim>\<open>refresh_access_token\<close> sends, and the one of
  \<^verbatim>\<open>exchange_code_for_token\<close>.\<close>

definition refresh_request :: "env \<Rightarrow> state \<Rightarrow> request" where
  "refresh_request ev s =
     POST (WHOOP_TOKEN_URL ev)
       [(''grant_type'', JStr ''refresh_token''),
        (''refresh_token'', dict_get (tokens s) ''refresh_token'' JNull),
        (''client_id'', JStr (client_id ev)),
        (''client_secret'', JStr (client_secret ev))]"

definition exchange_request :: "env \<Rightarrow> string \<Rightarrow> request" where
  "exchange_request ev code =
     POST (WHOOP_TOKEN_URL ev)
       [(''grant_type'', JStr ''authorization_code''),
        (''code'', JStr code),
        (''client_id'', JStr (client_id ev)),
        (''client_secret'', JStr (client_secret ev)),
        (''redirect_uri'', JStr (redirect_uri ev))]"





text \<open>
  A page is a response object; \<open>records_of\<close> is its \<^verbatim>\<open>records\<close> array and
  \<open>continuation\<close> its \<^verbatim>\<open>next_token\<close> (\<open>JNull\<close> when there is none). \<open>served_page r\<close>
  is the page a response \<open>r\<close> delivers: a JSON object under a status that
  \<^verbatim>\<open>raise_for_status\<close> lets through. \<open>page_requests\<close> lists the requests that fetch a
  sequence of pages, each carrying the continuation token of the page before.
\<close>

definition records_of :: "dict \<Rightarrow> json list" where
  "records_of page = (case map_of page ''records'' of Some (JList rs) \<Rightarrow> rs | _ \<Rightarrow> [])"

definition continuation :: "dict \<Rightarrow> json" where
  "continuation page = dict_get page ''next_token'' JNull"

definition served_page :: "http_result \<Rightarrow> dict option" where
  "served_page r =
     (case r of
        Response st (Some (JObj page)) rem rst \<Rightarrow>
          if 400 \<le> st \<and> st < 600 then None else Some page
      | _ \<Rightarrow> None)"

fun page_requests :: "string \<Rightarrow> json \<Rightarrow> dict \<Rightarrow> dict list \<Rightarrow> request list" where
  "page_requests url token params [] = []"
| "page_requests url token params (page # pages) =
     GET url token (Some params) #
     page_requests url token (AList.update ''nextToken'' (continuation page) params) pages"


text \<open>What a resource key holds after its \<^verbatim>\<open>try\<close> block, given the outcome of the fetch.\<close>

definition records_or_empty :: "error + json list \<Rightarrow> json list" where
  "records_or_empty outcome = (case outcome of Inl err \<Rightarrow> [] | Inr records \<Rightarrow> records)"

section \<open>Example environment\<close>

text \<open>
  A configuration, a clock that reads 2026-11-04T12:00:00 and the string conversions on the
  two instants the examples use (13:00:00 and 12:03:00 of that day); the provider is the
  parameter. \<open>example_state d\<close> is a process that has just loaded \<open>d\<close> from its token file.
\<close>

definition example_env :: "(nat \<Rightarrow> http_result) \<Rightarrow> env" where
  "example_env provider =
     \<lparr>client_id = ''client'', client_secret = ''secret'',
      redirect_uri = ''http://localhost:8501'',
      WHOOP_TOKEN_URL = ''https://provider.example/oauth/token'',
      WHOOP_API_BASE_URL = ''https://provider.example'',
      net = provider,
      clock = (\<lambda>n. 63929390400000000),
      isoformat = (\<lambda>t. if t = 63929394000000000 then ''2026-11-04T13:00:00''
                        else if t = 63929390580000000 then ''2026-11-04T12:03:00'' else []),
      fromisoformat = (\<lambda>str. if str = ''2026-11-04T13:00:00'' then Some (Naive 63929394000000000)
                             else if str = ''2026-11-04T12:03:00'' then Some (Naive 63929390580000000)
                             else None)\<rparr>"

definition example_tokens :: "string \<Rightarrow> dict" where
  "example_tokens expires_at =
     [(''access_token'', JStr ''A1''), (''refresh_token'', JStr ''R1''),
      (''expires_at'', JStr expires_at), (''token_type'', JStr ''Bearer'')]"

definition example_state :: "dict \<Rightarrow> state" where
  "example_state d =
     \<lparr>tokens = d, token_file = Some d, rate_limit_remaining = None, rate_limit_reset = None,
      sent = [], ticks = 0, refresh_calls = 0\<rparr>"

text \<open>A page of the records numbered \<open>lo\<close> to \<open>hi - 1\<close>, without a continuation token.\<close>

definition example_record :: "nat \<Rightarrow> json" where
  "example_record i = JObj [(''id'', JInt (int i))]"

definition example_page :: "nat \<Rightarrow> nat \<Rightarrow> dict" where
  "example_page lo hi = [(''records'', JList (map example_record [lo..<hi]))]"

text \<open>
  Two providers. The first serves 60 records in pages of 25, 25 and 10, the last page
  without a continuation token. The second answers the second request with status 500 and
  the other three with a page of one record.
\<close>

definition example_three_pages :: "nat \<Rightarrow> http_result" where
  "example_three_pages n =
     (if n = 0 then
        Response 200 (Some (JObj (example_page 0 25 @ [(''next_token'', JStr ''t1'')]))) None None
      else if n = 1 then
        Response 200 (Some (JObj (example_page 25 50 @ [(''next_token'', JStr ''t2'')]))) None None
      else if n = 2 then
        Response 200 (Some (JObj (example_page 50 60))) None None
      else Raised)"

definition example_sleep_fails :: "nat \<Rightarrow> http_result" where
  "example_sleep_fails n =
     (if n = 1 then Response 500 None None None
      else if n < 4 then Response 200 (Some (JObj (example_page n (Suc n)))) None None
      else Raised)"

lemmas example_defs = example_env_def example_tokens_def example_state_def

section \<open>Token lifecycle: frame and shape lemmas\<close>




lemma refresh_success_shape:
  assumes "refresh_access_token ev s = (Inr d, s')"
  shows "\<exists>a r x t. d = [(''access_token'', a), (''refresh_token'', r),
                       (''expires_at'', JStr x), (''token_type'', t)]
          \<and> tokens s' = d \<and> token_file s' = Some d"
  using assms
  by (auto simp: refresh_access_token_def Let_def requests_send_def datetime_now_def
                 save_tokens_def
           split: sum.splits prod.splits if_splits)

lemma exchange_sends_once:
  "sent (snd (exchange_code_for_token ev code s)) = sent s @ [exchange_request ev code]"
  by (auto simp: exchange_code_for_token_def exchange_request_def Let_def requests_send_def
                 datetime_now_def save_tokens_def
           split: sum.splits prod.splits)

lemma refresh_effects:
  assumes "refresh_access_token ev s = (r, s')"
  shows "refresh_calls s' = Suc (refresh_calls s)"
    and "truthy (dict_get (tokens s) ''refresh_token'' JNull) \<Longrightarrow>
           sent s' = sent s @ [refresh_request ev s]"
    and "\<not> truthy (dict_get (tokens s) ''refresh_token'' JNull) \<Longrightarrow>
           sent s' = sent s \<and>
           r = Inl (ValueError ''No refresh token available. Please re-authenticate.'')"
    and "r = Inr d \<Longrightarrow> truthy (dict_get (tokens s) ''refresh_token'' JNull)"
  using assms
  by (auto simp: refresh_access_token_def refresh_request_def Let_def requests_send_def
                 datetime_now_def save_tokens_def
           split: sum.splits prod.splits if_splits)

lemma refresh_success_access:
  assumes "refresh_access_token ev s = (Inr d, s')"
  shows "\<exists>a. dict_item (tokens s') ''access_token'' = Inr a \<and> map_of d ''access_token'' = Some a"
  using refresh_success_shape[OF assms] by (auto simp: dict_item_def)

lemma get_valid_no_token:
  assumes "\<not> truthy (dict_get (tokens s) ''access_token'' JNull)"
  shows "get_valid_access_token ev s =
           (Inl (ValueError ''No access token available. Please authenticate first.''), s)"
  using assms by (simp add: get_valid_access_token_def)

lemma get_valid_fresh:
  assumes "map_of (tokens s) ''access_token'' = Some access" "truthy access"
      and "map_of (tokens s) ''expires_at'' = Some (JStr str)"
      and "fromisoformat ev str = Some (Naive expires_at)"
      and "300000000 \<le> expires_at" "expires_at \<le> datetime_max"
      and "clock ev (ticks s) < expires_at - 300000000"
  shows "get_valid_access_token ev s = (Inr access, s\<lparr>ticks := Suc (ticks s)\<rparr>)"
  using assms
  by (simp add: get_valid_access_token_def dict_get_def dict_item_def py_fromisoformat_def
                datetime_now_def datetime_sub_def datetime_ge_def)

lemma get_valid_stale:
  assumes "map_of (tokens s) ''access_token'' = Some access" "truthy access"
      and "map_of (tokens s) ''expires_at'' = Some (JStr str)"
      and "fromisoformat ev str = Some (Naive expires_at)"
      and "300000000 \<le> expires_at" "expires_at \<le> datetime_max"
      and "clock ev (ticks s) \<ge> expires_at - 300000000"
  shows "get_valid_access_token ev s =
           (case refresh_access_token ev (s\<lparr>ticks := Suc (ticks s)\<rparr>) of
              (Inl err, s2) \<Rightarrow> (Inl err, s2)
            | (Inr d, s2) \<Rightarrow> (dict_item (tokens s2) ''access_token'', s2))"
  using assms
  by (simp add: get_valid_access_token_def dict_get_def dict_item_def py_fromisoformat_def
                datetime_now_def datetime_sub_def datetime_ge_def)

text \<open>Evaluation of the two token operations on the example environment.\<close>

lemma example_refresh_ok:
  assumes "provider 0 = Response 200 (Some (JObj token_data)) None None"
      and "map_of token_data ''access_token'' = Some a"
      and "map_of token_data ''expires_in'' = None"
      and "sent s = []"
      and "truthy (dict_get (tokens s) ''refresh_token'' JNull)"
  shows "fst (refresh_access_token (example_env provider) s) =
           Inr [(''access_token'', a),
                (''refresh_token'', dict_get token_data ''refresh_token''
                                      (dict_get (tokens s) ''refresh_token'' JNull)),
                (''expires_at'', JStr ''2026-11-04T13:00:00''),
                (''token_type'', dict_get token_data ''token_type'' (JStr ''Bearer''))]"
  using assms
  by (simp add: example_env_def refresh_access_token_def requests_send_def checked_json_def
                raise_for_status_def datetime_now_def expiry_time_def timedelta_seconds_def
                datetime_add_def datetime_max_def dict_item_def dict_get_def save_tokens_def
                Let_def
           split: prod.splits)





lemma exchange_raised:
  assumes "net ev (length (sent s)) = Raised"
  shows "fst (exchange_code_for_token ev code s) = Inl RequestException"
  using assms
  by (simp add: exchange_code_for_token_def requests_send_def checked_json_def split: prod.splits)

lemma exchange_bad_body:
  assumes "net ev (length (sent s)) = Response st b rem rst"
      and "b = None \<or> (\<exists>j. b = Some j \<and> as_dict j = Inl AttributeError) \<or>
           (\<exists>token_data. b = Some (JObj token_data) \<and> map_of token_data ''access_token'' = None)"
  shows "isl (fst (exchange_code_for_token ev code s))"
  using assms
  by (auto simp: exchange_code_for_token_def requests_send_def checked_json_def Let_def
                 datetime_now_def dict_item_def
           split: prod.splits sum.splits)



lemma refresh_raised:
  assumes "truthy (dict_get (tokens s) ''refresh_token'' JNull)"
      and "net ev (length (sent s)) = Raised"
  shows "fst (refresh_access_token ev s) = Inl RequestException"
  using assms
  by (simp add: refresh_access_token_def requests_send_def checked_json_def split: prod.splits)

lemma refresh_bad_body:
  assumes "truthy (dict_get (tokens s) ''refresh_token'' JNull)"
      and "net ev (length (sent s)) = Response st b rem rst"
      and "b = None \<or> (\<exists>j. b = Some j \<and> as_dict j = Inl AttributeError) \<or>
           (\<exists>token_data. b = Some (JObj token_data) \<and> map_of token_data ''access_token'' = None)"
  shows "isl (fst (refresh_access_token ev s))"
  using assms
  by (auto simp: refresh_access_token_def requests_send_def checked_json_def Let_def
                 datetime_now_def dict_item_def
           split: prod.splits sum.splits)

lemma example_refresh_expires_in:
  assumes "provider 0 = Response 200 (Some (JObj token_data)) None None"
      and "map_of token_data ''access_token'' = Some a"
      and "map_of token_data ''expires_in'' = Some (JInt 180)"
      and "sent s = []"
      and "truthy (dict_get (tokens s) ''refresh_token'' JNull)"
  shows "fst (refresh_access_token (example_env provider) s) =
           Inr [(''access_token'', a),
                (''refresh_token'', dict_get token_data ''refresh_token''
                                      (dict_get (tokens s) ''refresh_token'' JNull)),
                (''expires_at'', JStr ''2026-11-04T12:03:00''),
                (''token_type'', dict_get token_data ''token_type'' (JStr ''Bearer''))]"
  using assms
  by (simp add: example_env_def refresh_access_token_def requests_send_def checked_json_def
                raise_for_status_def datetime_now_def expiry_time_def timedelta_seconds_def
                datetime_add_def datetime_max_def dict_item_def dict_get_def save_tokens_def
                Let_def
           split: prod.splits)




section \<open>Token lifecycle: the claims\<close>




text \<open>
  C2. After a successful refresh answered with the object \<open>token_data\<close>, the stored token
  set (in memory and in the file) has the \<^verbatim>\<open>access_token\<close> of the response; as
  \<^verbatim>\<open>expires_at\<close> the ISO string of the clock reading plus the \<^verbatim>\<open>expires_in\<close> seconds of
  the response (3600 when the response has none; JSON true and false count as 1 and 0);
  the \<^verbatim>\<open>token_type\<close> of the response (\<^verbatim>\<open>Bearer\<close> when it has none); and as
  \<^verbatim>\<open>refresh_token\<close> the one of the response when it has that key, the previous one when
  it has not.
\<close>

theorem refresh_success_fields:
  assumes "net ev (length (sent s)) = Response st (Some (JObj token_data)) rem rst"
      and "refresh_access_token ev s = (Inr d, s')"
  shows "\<exists>access old n.
           map_of token_data ''access_token'' = Some access \<and>
           map_of (tokens s) ''refresh_token'' = Some old \<and>
           (case map_of token_data ''expires_in'' of
              None \<Rightarrow> n = 3600
            | Some (JInt k) \<Rightarrow> n = k
            | Some (JBool b) \<Rightarrow> n = (if b then 1 else 0)
            | Some _ \<Rightarrow> False) \<and>
           d = [(''access_token'', access),
                (''refresh_token'',
                   (case map_of token_data ''refresh_token'' of None \<Rightarrow> old | Some r \<Rightarrow> r)),
                (''expires_at'', JStr (isoformat ev (clock ev (ticks s) + n * 1000000))),
                (''token_type'',
                   (case map_of token_data ''token_type'' of
                      None \<Rightarrow> JStr ''Bearer'' | Some t \<Rightarrow> t))] \<and>
           tokens s' = d \<and> token_file s' = Some d"
proof -
  have rt: "truthy (dict_get (tokens s) ''refresh_token'' JNull)"
    using refresh_effects(4)[OF assms(2)] by simp
  then obtain old where old: "map_of (tokens s) ''refresh_token'' = Some old"
    by (cases "map_of (tokens s) ''refresh_token''") (auto simp: dict_get_def)
  let ?ei = "dict_get token_data ''expires_in'' (JInt 3600)"
  from assms rt obtain access expiry where
        a: "map_of token_data ''access_token'' = Some access"
    and e: "expiry_time ev (clock ev (ticks s)) ?ei = Inr expiry"
    and d: "d = [(''access_token'', access),
                 (''refresh_token'', dict_get token_data ''refresh_token''
                                       (dict_get (tokens s) ''refresh_token'' JNull)),
                 (''expires_at'', JStr expiry),
                 (''token_type'', dict_get token_data ''token_type'' (JStr ''Bearer''))]"
    and t: "tokens s' = d" "token_file s' = Some d"
    by (auto simp: refresh_access_token_def Let_def requests_send_def datetime_now_def
                   save_tokens_def checked_json_def dict_item_def
             split: sum.splits prod.splits if_splits option.splits)
  from e obtain n where
        n: "case map_of token_data ''expires_in'' of
              None \<Rightarrow> n = 3600
            | Some (JInt k) \<Rightarrow> n = k
            | Some (JBool b) \<Rightarrow> n = (if b then 1 else 0)
            | Some _ \<Rightarrow> False"
    and x: "expiry = isoformat ev (clock ev (ticks s) + n * 1000000)"
    by (auto simp: expiry_time_def timedelta_seconds_def datetime_add_def dict_get_def
             split: option.splits json.splits sum.splits if_splits)
  show ?thesis
    by (rule exI[of _ access], rule exI[of _ old], rule exI[of _ n])
       (simp add: a old n d t x dict_get_def)
qed

text \<open>
  A response without \<^verbatim>\<open>refresh_token\<close> and with \<^verbatim>\<open>expires_in\<close> 180 keeps the stored
  \<open>R1\<close> and sets the expiry three minutes after the clock's 12:00:00; a response with
  \<^verbatim>\<open>refresh_token\<close> \<open>R2\<close> and no \<^verbatim>\<open>expires_in\<close> replaces \<open>R1\<close> and sets the expiry one
  hour after the clock.
\<close>

theorem refresh_success_fields_witness:
  "(\<exists>s'. refresh_access_token
            (example_env (\<lambda>n. Response 200
               (Some (JObj [(''access_token'', JStr ''A2''), (''expires_in'', JInt 180)])) None None))
            (example_state (example_tokens ''2026-11-04T13:00:00'')) =
              (Inr [(''access_token'', JStr ''A2''), (''refresh_token'', JStr ''R1''),
                    (''expires_at'', JStr ''2026-11-04T12:03:00''), (''token_type'', JStr ''Bearer'')], s') \<and>
          map_of (tokens s') ''refresh_token'' = Some (JStr ''R1'') \<and>
          map_of (tokens s') ''expires_at'' = Some (JStr ''2026-11-04T12:03:00'')) \<and>
   (\<exists>s'. refresh_access_token
            (example_env (\<lambda>n. Response 200
               (Some (JObj [(''access_token'', JStr ''A2''), (''refresh_token'', JStr ''R2'')])) None None))
            (example_state (example_tokens ''2026-11-04T12:03:00'')) =
              (Inr [(''access_token'', JStr ''A2''), (''refresh_token'', JStr ''R2''),
                    (''expires_at'', JStr ''2026-11-04T13:00:00''), (''token_type'', JStr ''Bearer'')], s') \<and>
          map_of (tokens s') ''refresh_token'' = Some (JStr ''R2'') \<and>
          map_of (tokens s') ''expires_at'' = Some (JStr ''2026-11-04T13:00:00''))"
proof -
  let ?td1 = "[(''access_token'', JStr ''A2''), (''expires_in'', JInt 180)]"
  let ?td2 = "[(''access_token'', JStr ''A2''), (''refresh_token'', JStr ''R2'')]"
  let ?p1 = "\<lambda>n::nat. Response 200 (Some (JObj ?td1)) None None"
  let ?p2 = "\<lambda>n::nat. Response 200 (Some (JObj ?td2)) None None"
  let ?s1 = "example_state (example_tokens ''2026-11-04T13:00:00'')"
  let ?s2 = "example_state (example_tokens ''2026-11-04T12:03:00'')"
  obtain r1 s1 where x: "refresh_access_token (example_env ?p1) ?s1 = (r1, s1)"
    by (cases "refresh_access_token (example_env ?p1) ?s1")
  obtain r2 s2 where y: "refresh_access_token (example_env ?p2) ?s2 = (r2, s2)"
    by (cases "refresh_access_token (example_env ?p2) ?s2")
  have "isl r1 = False"
    using example_refresh_expires_in[of ?p1 ?td1 "JStr ''A2''" ?s1] x
    by (simp add: example_state_def example_tokens_def dict_get_def)
  then obtain d1 where r1: "r1 = Inr d1"
    by (cases r1) auto
  have "isl r2 = False"
    using example_refresh_ok[of ?p2 ?td2 "JStr ''A2''" ?s2] y
    by (simp add: example_state_def example_tokens_def dict_get_def)
  then obtain d2 where r2: "r2 = Inr d2"
    by (cases r2) auto
  have n1: "net (example_env ?p1) (length (sent ?s1)) = Response 200 (Some (JObj ?td1)) None None"
    and n2: "net (example_env ?p2) (length (sent ?s2)) = Response 200 (Some (JObj ?td2)) None None"
    by (simp_all add: example_env_def)
  have c: "clock (example_env ?p1) (ticks ?s1) = 63929390400000000"
          "clock (example_env ?p2) (ticks ?s2) = 63929390400000000"
    by (simp_all add: example_env_def)
  have i: "isoformat (example_env ?p1) (63929390400000000 + 180 * 1000000) = ''2026-11-04T12:03:00''"
          "isoformat (example_env ?p2) (63929390400000000 + 3600 * 1000000) = ''2026-11-04T13:00:00''"
    by (simp_all add: example_env_def)
  have o: "map_of (tokens ?s1) ''refresh_token'' = Some (JStr ''R1'')"
          "map_of (tokens ?s2) ''refresh_token'' = Some (JStr ''R1'')"
    by (simp_all add: example_state_def example_tokens_def)
  from refresh_success_fields[OF n1 x[unfolded r1]] c(1) i(1) o(1)
  have d1: "d1 = [(''access_token'', JStr ''A2''), (''refresh_token'', JStr ''R1''),
                  (''expires_at'', JStr ''2026-11-04T12:03:00''), (''token_type'', JStr ''Bearer'')]"
    and t1: "tokens s1 = d1"
    by auto
  from refresh_success_fields[OF n2 y[unfolded r2]] c(2) i(2) o(2)
  have d2: "d2 = [(''access_token'', JStr ''A2''), (''refresh_token'', JStr ''R2''),
                  (''expires_at'', JStr ''2026-11-04T13:00:00''), (''token_type'', JStr ''Bearer'')]"
    and t2: "tokens s2 = d2"
    by auto
  show ?thesis
    using x y r1 r2 d1 d2 t1 t2 by simp
qed

text \<open>
  C10. When the response of a successful refresh has the key \<^verbatim>\<open>refresh_token\<close> with the
  value null, the stored refresh token is null afterwards, in memory and in the file:
  \<^verbatim>\<open>token_data.get('refresh_token', old)\<close> falls back to the old token only when the key
  is missing.
\<close>

theorem refresh_null_erases:
  assumes "net ev (length (sent s)) = Response st (Some (JObj token_data)) rem rst"
      and "map_of token_data ''refresh_token'' = Some JNull"
      and "refresh_access_token ev s = (Inr d, s')"
  shows "map_of (tokens s') ''refresh_token'' = Some JNull \<and>
         (\<exists>f. token_file s' = Some f \<and> map_of f ''refresh_token'' = Some JNull)"
  using assms
  by (auto simp: refresh_access_token_def Let_def requests_send_def datetime_now_def
                 save_tokens_def checked_json_def dict_item_def dict_get_def
           split: sum.splits prod.splits if_splits option.splits)

theorem refresh_null_erases_witness:
  "\<exists>d s' f. refresh_access_token
            (example_env (\<lambda>n. Response 200
               (Some (JObj [(''access_token'', JStr ''A2''), (''refresh_token'', JNull)])) None None))
            (example_state (example_tokens ''2026-11-04T12:03:00'')) = (Inr d, s') \<and>
          map_of (tokens (example_state (example_tokens ''2026-11-04T12:03:00''))) ''refresh_token'' =
            Some (JStr ''R1'') \<and>
          map_of (tokens s') ''refresh_token'' = Some JNull \<and>
          token_file s' = Some f \<and> map_of f ''refresh_token'' = Some JNull"
proof -
  let ?td = "[(''access_token'', JStr ''A2''), (''refresh_token'', JNull)]"
  let ?p = "\<lambda>n::nat. Response 200 (Some (JObj ?td)) None None"
  let ?s = "example_state (example_tokens ''2026-11-04T12:03:00'')"
  have s: "sent ?s = []" "truthy (dict_get (tokens ?s) ''refresh_token'' JNull)"
          "map_of (tokens ?s) ''refresh_token'' = Some (JStr ''R1'')"
    by (simp_all add: example_state_def example_tokens_def dict_get_def)
  obtain r s' where x: "refresh_access_token (example_env ?p) ?s = (r, s')"
    by (cases "refresh_access_token (example_env ?p) ?s")
  have "\<exists>d. fst (refresh_access_token (example_env ?p) ?s) = Inr d"
    using example_refresh_ok[of ?p ?td "JStr ''A2''" ?s] s by simp
  then obtain d where r: "r = Inr d"
    using x by auto
  have n: "net (example_env ?p) (length (sent ?s)) = Response 200 (Some (JObj ?td)) None None"
    by (simp add: example_env_def)
  have m: "map_of ?td ''refresh_token'' = Some JNull"
    by simp
  from refresh_null_erases[OF n m x[unfolded r]] x r s(3)
  show ?thesis by auto
qed

text \<open>
  C4. \<^verbatim>\<open>revoke_access\<close> returns normally, with the token dictionary empty and no token
  file, whatever the state it starts from and whatever the provider does with the
  \<^verbatim>\<open>DELETE\<close>: the theorem holds for every environment, so for a \<^verbatim>\<open>requests.delete\<close> that
  raises as for every status it can return.
\<close>

theorem revoke_always_clears:
  "\<exists>s'. revoke_access ev s = (Inr (), s') \<and> tokens s' = [] \<and> token_file s' = None"
  by (auto simp: revoke_access_def Let_def requests_send_def
           split: option.splits http_result.splits)

text \<open>The same at three providers: one that raises, one that refuses, one that accepts.\<close>

theorem revoke_always_clears_witness:
  "(\<exists>s'. revoke_access (example_env (\<lambda>n. Raised))
             (example_state (example_tokens ''2026-11-04T13:00:00'')) = (Inr (), s') \<and>
          tokens s' = [] \<and> token_file s' = None) \<and>
   (\<exists>s'. revoke_access (example_env (\<lambda>n. Response 500 None None None))
             (example_state (example_tokens ''2026-11-04T13:00:00'')) = (Inr (), s') \<and>
          tokens s' = [] \<and> token_file s' = None) \<and>
   (\<exists>s'. revoke_access (example_env (\<lambda>n. Response 204 None None None))
             (example_state (example_tokens ''2026-11-04T13:00:00'')) = (Inr (), s') \<and>
          tokens s' = [] \<and> token_file s' = None)"
  using revoke_always_clears[of "example_env (\<lambda>n. Raised)"
          "example_state (example_tokens ''2026-11-04T13:00:00'')"]
        revoke_always_clears[of "example_env (\<lambda>n. Response 500 None None None)"
          "example_state (example_tokens ''2026-11-04T13:00:00'')"]
        revoke_always_clears[of "example_env (\<lambda>n. Response 204 None None None)"
          "example_state (example_tokens ''2026-11-04T13:00:00'')"]
  by blast




text \<open>
  C1. \<^verbatim>\<open>get_valid_access_token\<close>, for a token set whose \<^verbatim>\<open>expires_at\<close> is the ISO string
  of a naive date at least five minutes after \<^verbatim>\<open>datetime.min\<close>:
  \<^item> with no access token (none stored, or an empty one) it raises the \<^verbatim>\<open>ValueError\<close>
    "No access token available" and changes nothing;
  \<^item> when the clock reads less than \<open>expires_at\<close> minus five minutes it returns the stored
    access token; only the clock has been read: nothing is sent and
    \<^verbatim>\<open>refresh_access_token\<close> is not called;
  \<^item> otherwise \<^verbatim>\<open>refresh_access_token\<close> is called exactly once. At most one request is
    sent, the refresh grant; an exception of the refresh is passed on; when the call returns
    a token, the refresh succeeded, exactly that one request was sent, and the token is the
    access token now stored.
\<close>

theorem get_valid_access_token_contract:
  "(\<not> truthy (dict_get (tokens s) ''access_token'' JNull) \<longrightarrow>
      get_valid_access_token ev s =
        (Inl (ValueError ''No access token available. Please authenticate first.''), s)) \<and>
   (map_of (tokens s) ''access_token'' = Some access \<and> truthy access \<and>
    map_of (tokens s) ''expires_at'' = Some (JStr str) \<and>
    fromisoformat ev str = Some (Naive expires_at) \<and>
    300000000 \<le> expires_at \<and> expires_at \<le> datetime_max \<longrightarrow>
      (clock ev (ticks s) < expires_at - 300000000 \<longrightarrow>
         get_valid_access_token ev s = (Inr access, s\<lparr>ticks := Suc (ticks s)\<rparr>)) \<and>
      (clock ev (ticks s) \<ge> expires_at - 300000000 \<longrightarrow>
         (\<exists>r s'. get_valid_access_token ev s = (r, s') \<and>
            refresh_calls s' = Suc (refresh_calls s) \<and>
            (sent s' = sent s \<or> sent s' = sent s @ [refresh_request ev s]) \<and>
            (case r of
               Inl err \<Rightarrow> fst (refresh_access_token ev (s\<lparr>ticks := Suc (ticks s)\<rparr>)) = Inl err
             | Inr a \<Rightarrow> sent s' = sent s @ [refresh_request ev s] \<and>
                         map_of (tokens s') ''access_token'' = Some a \<and>
                         (\<exists>d. refresh_access_token ev (s\<lparr>ticks := Suc (ticks s)\<rparr>) = (Inr d, s'))))))"
proof (intro conjI impI)
  assume "\<not> truthy (dict_get (tokens s) ''access_token'' JNull)"
  then show "get_valid_access_token ev s =
        (Inl (ValueError ''No access token available. Please authenticate first.''), s)"
    by (rule get_valid_no_token)
next
  assume h: "map_of (tokens s) ''access_token'' = Some access \<and> truthy access \<and>
    map_of (tokens s) ''expires_at'' = Some (JStr str) \<and>
    fromisoformat ev str = Some (Naive expires_at) \<and>
    300000000 \<le> expires_at \<and> expires_at \<le> datetime_max"
    and fresh: "clock ev (ticks s) < expires_at - 300000000"
  show "get_valid_access_token ev s = (Inr access, s\<lparr>ticks := Suc (ticks s)\<rparr>)"
    using h fresh by (intro get_valid_fresh) auto
next
  assume h: "map_of (tokens s) ''access_token'' = Some access \<and> truthy access \<and>
    map_of (tokens s) ''expires_at'' = Some (JStr str) \<and>
    fromisoformat ev str = Some (Naive expires_at) \<and>
    300000000 \<le> expires_at \<and> expires_at \<le> datetime_max"
    and stale: "clock ev (ticks s) \<ge> expires_at - 300000000"
  let ?s1 = "s\<lparr>ticks := Suc (ticks s)\<rparr>"
  obtain r0 s' where ref: "refresh_access_token ev ?s1 = (r0, s')"
    by (cases "refresh_access_token ev ?s1")
  have eq: "get_valid_access_token ev s =
           (case refresh_access_token ev ?s1 of
              (Inl err, s2) \<Rightarrow> (Inl err, s2)
            | (Inr d, s2) \<Rightarrow> (dict_item (tokens s2) ''access_token'', s2))"
    using h stale by (intro get_valid_stale) auto
  have calls: "refresh_calls s' = Suc (refresh_calls s)"
    using refresh_effects(1)[OF ref] by simp
  have rq: "refresh_request ev ?s1 = refresh_request ev s"
    by (simp add: refresh_request_def)
  have snt: "sent s' = sent s \<or> sent s' = sent s @ [refresh_request ev s]"
    using refresh_effects(2,3)[OF ref] rq by auto
  show "\<exists>r s'. get_valid_access_token ev s = (r, s') \<and>
            refresh_calls s' = Suc (refresh_calls s) \<and>
            (sent s' = sent s \<or> sent s' = sent s @ [refresh_request ev s]) \<and>
            (case r of
               Inl err \<Rightarrow> fst (refresh_access_token ev ?s1) = Inl err
             | Inr a \<Rightarrow> sent s' = sent s @ [refresh_request ev s] \<and>
                         map_of (tokens s') ''access_token'' = Some a \<and>
                         (\<exists>d. refresh_access_token ev ?s1 = (Inr d, s')))"
  proof (cases r0)
    case (Inl err)
    then have "get_valid_access_token ev s = (Inl err, s')"
      using eq ref by simp
    then show ?thesis using calls snt ref Inl by auto
  next
    case (Inr d)
    obtain a where a: "dict_item (tokens s') ''access_token'' = Inr a"
      using refresh_success_access ref Inr by blast
    have g: "get_valid_access_token ev s = (Inr a, s')"
      using eq ref Inr a by simp
    have "truthy (dict_get (tokens ?s1) ''refresh_token'' JNull)"
      using refresh_effects(4)[OF ref] Inr by simp
    then have p: "sent s' = sent s @ [refresh_request ev s]"
      using refresh_effects(2)[OF ref] rq by simp
    have m: "map_of (tokens s') ''access_token'' = Some a"
      using a by (auto simp: dict_item_def split: option.splits)
    show ?thesis using g calls snt p m ref Inr by auto
  qed
qed


text \<open>
  The three cases on the example clock (12:00:00): no tokens; a token that expires at
  13:00:00; a token that expires at 12:03:00, renewed by the provider as \<open>A2\<close>.
\<close>

theorem get_valid_access_token_contract_witness:
  "get_valid_access_token (example_env (\<lambda>n. Raised)) (example_state []) =
     (Inl (ValueError ''No access token available. Please authenticate first.''),
      example_state []) \<and>
   get_valid_access_token (example_env (\<lambda>n. Raised))
       (example_state (example_tokens ''2026-11-04T13:00:00'')) =
     (Inr (JStr ''A1''), (example_state (example_tokens ''2026-11-04T13:00:00''))\<lparr>ticks := 1\<rparr>) \<and>
   (\<exists>s'. get_valid_access_token
            (example_env (\<lambda>n. Response 200 (Some (JObj [(''access_token'', JStr ''A2'')])) None None))
            (example_state (example_tokens ''2026-11-04T12:03:00'')) = (Inr (JStr ''A2''), s') \<and>
          refresh_calls s' = 1 \<and>
          sent s' = [POST ''https://provider.example/oauth/token''
                       [(''grant_type'', JStr ''refresh_token''), (''refresh_token'', JStr ''R1''),
                        (''client_id'', JStr ''client''), (''client_secret'', JStr ''secret'')]])"
proof (intro conjI)
  have "\<not> truthy (dict_get (tokens (example_state [])) ''access_token'' JNull)"
    by (simp add: example_state_def dict_get_def)
  with get_valid_access_token_contract[of "example_state []" "example_env (\<lambda>n. Raised)"]
  show "get_valid_access_token (example_env (\<lambda>n. Raised)) (example_state []) =
     (Inl (ValueError ''No access token available. Please authenticate first.''),
      example_state [])"
    by blast
next
  let ?s = "example_state (example_tokens ''2026-11-04T13:00:00'')"
  let ?e = "example_env (\<lambda>n. Raised)"
  have h: "map_of (tokens ?s) ''access_token'' = Some (JStr ''A1'') \<and> truthy (JStr ''A1'') \<and>
           map_of (tokens ?s) ''expires_at'' = Some (JStr ''2026-11-04T13:00:00'') \<and>
           fromisoformat ?e ''2026-11-04T13:00:00'' = Some (Naive 63929394000000000) \<and>
           300000000 \<le> (63929394000000000::int) \<and> 63929394000000000 \<le> datetime_max"
    by (simp add: example_defs datetime_max_def)
  have c: "clock ?e (ticks ?s) < 63929394000000000 - 300000000"
    by (simp add: example_defs)
  have t: "Suc (ticks ?s) = 1"
    by (simp add: example_state_def)
  from get_valid_access_token_contract[of ?s ?e "JStr ''A1''" "''2026-11-04T13:00:00''"
         63929394000000000] h c
  have "get_valid_access_token ?e ?s = (Inr (JStr ''A1''), ?s\<lparr>ticks := Suc (ticks ?s)\<rparr>)"
    by blast
  then show "get_valid_access_token ?e ?s = (Inr (JStr ''A1''), ?s\<lparr>ticks := 1\<rparr>)"
    using t by simp
next
  let ?s = "example_state (example_tokens ''2026-11-04T12:03:00'')"
  let ?p = "\<lambda>n::nat. Response 200 (Some (JObj [(''access_token'', JStr ''A2'')])) None None"
  let ?e = "example_env ?p"
  let ?s1 = "?s\<lparr>ticks := Suc (ticks ?s)\<rparr>"
  let ?d = "[(''access_token'', JStr ''A2''), (''refresh_token'', JStr ''R1''),
             (''expires_at'', JStr ''2026-11-04T13:00:00''), (''token_type'', JStr ''Bearer'')]"
  have h: "map_of (tokens ?s) ''access_token'' = Some (JStr ''A1'') \<and> truthy (JStr ''A1'') \<and>
           map_of (tokens ?s) ''expires_at'' = Some (JStr ''2026-11-04T12:03:00'') \<and>
           fromisoformat ?e ''2026-11-04T12:03:00'' = Some (Naive 63929390580000000) \<and>
           300000000 \<le> (63929390580000000::int) \<and> 63929390580000000 \<le> datetime_max"
    by (simp add: example_defs datetime_max_def)
  have c: "clock ?e (ticks ?s) \<ge> 63929390580000000 - 300000000"
    by (simp add: example_defs)
  have rf: "fst (refresh_access_token ?e ?s1) = Inr ?d"
    using example_refresh_ok[of ?p "[(''access_token'', JStr ''A2'')]" "JStr ''A2''" ?s1]
    by (simp add: example_state_def example_tokens_def dict_get_def)
  have rq: "refresh_request ?e ?s =
              POST ''https://provider.example/oauth/token''
                [(''grant_type'', JStr ''refresh_token''), (''refresh_token'', JStr ''R1''),
                 (''client_id'', JStr ''client''), (''client_secret'', JStr ''secret'')]"
    by (simp add: refresh_request_def example_defs dict_get_def)
  have s0: "refresh_calls ?s = 0" "sent ?s = []"
    by (simp_all add: example_state_def)
  from get_valid_access_token_contract[of ?s ?e "JStr ''A1''" "''2026-11-04T12:03:00''"
         63929390580000000] h c
  obtain r s' where g: "get_valid_access_token ?e ?s = (r, s')"
      and n: "refresh_calls s' = Suc (refresh_calls ?s)"
      and k: "(case r of
                 Inl err \<Rightarrow> fst (refresh_access_token ?e ?s1) = Inl err
               | Inr a \<Rightarrow> sent s' = sent ?s @ [refresh_request ?e ?s] \<and>
                           map_of (tokens s') ''access_token'' = Some a \<and>
                           (\<exists>d. refresh_access_token ?e ?s1 = (Inr d, s')))"
    by blast
  from k rf obtain a where a: "r = Inr a" "sent s' = sent ?s @ [refresh_request ?e ?s]"
      "map_of (tokens s') ''access_token'' = Some a" "refresh_access_token ?e ?s1 = (Inr ?d, s')"
    by (cases r) auto
  have "tokens s' = ?d"
    using refresh_success_shape[OF a(4)] by auto
  then have "a = JStr ''A2''"
    using a(3) by simp
  then show "\<exists>s'. get_valid_access_token ?e ?s = (Inr (JStr ''A2''), s') \<and>
          refresh_calls s' = 1 \<and>
          sent s' = [POST ''https://provider.example/oauth/token''
                       [(''grant_type'', JStr ''refresh_token''), (''refresh_token'', JStr ''R1''),
                        (''client_id'', JStr ''client''), (''client_secret'', JStr ''secret'')]]"
    using g n a(1,2) rq s0 by auto
qed

section \<open>The callback route\<close>

text \<open>
  C9. With \<open>returned\<close> the \<^verbatim>\<open>state\<close> of the query string and \<open>expected\<close> the
  \<^verbatim>\<open>oauth_state\<close> of the session (each \<open>None\<close> when missing, as \<^verbatim>\<open>.get\<close> gives):
  when they differ the callback answers "Invalid state parameter" with status 400 and
  touches nothing; when they are equal it never gives that answer; and it sends a request
  (the first thing \<^verbatim>\<open>exchange_code_for_token\<close> does) only when they are equal.
\<close>

theorem callback_checks_state:
  "(map_of args ''state'' \<noteq> map_of session ''oauth_state'' \<longrightarrow>
      callback ev args session s = (InvalidState, s) \<and>
      status_code (fst (callback ev args session s)) = 400) \<and>
   (map_of args ''state'' = map_of session ''oauth_state'' \<longrightarrow>
      fst (callback ev args session s) \<noteq> InvalidState) \<and>
   (sent (snd (callback ev args session s)) \<noteq> sent s \<longrightarrow>
      map_of args ''state'' = map_of session ''oauth_state'' \<and>
      (\<exists>code. map_of args ''code'' = Some code \<and>
         snd (callback ev args session s) = snd (exchange_code_for_token ev code s)))"
  by (auto simp: callback_def Let_def split: option.splits list.splits prod.splits sum.splits)

text \<open>
  A callback whose \<^verbatim>\<open>state\<close> differs from the session's is rejected without a request;
  the same callback with the session's \<^verbatim>\<open>state\<close> sends the exchange.
\<close>

theorem callback_checks_state_witness:
  "callback (example_env (\<lambda>n. Response 200 (Some (JObj [(''access_token'', JStr ''A2'')])) None None))
      [(''state'', ''abc''), (''code'', ''c0de'')] [(''oauth_state'', ''xyz'')] (example_state []) =
     (InvalidState, example_state []) \<and>
   fst (callback (example_env (\<lambda>n. Response 200 (Some (JObj [(''access_token'', JStr ''A2'')])) None None))
      [(''state'', ''xyz''), (''code'', ''c0de'')] [(''oauth_state'', ''xyz'')] (example_state [])) \<noteq>
     InvalidState \<and>
   sent (snd (callback (example_env (\<lambda>n. Response 200 (Some (JObj [(''access_token'', JStr ''A2'')])) None None))
      [(''state'', ''xyz''), (''code'', ''c0de'')] [(''oauth_state'', ''xyz'')] (example_state []))) =
     [exchange_request
        (example_env (\<lambda>n. Response 200 (Some (JObj [(''access_token'', JStr ''A2'')])) None None))
        ''c0de'']"
proof -
  let ?e = "example_env (\<lambda>n. Response 200 (Some (JObj [(''access_token'', JStr ''A2'')])) None None)"
  let ?bad = "[(''state'', ''abc''), (''code'', ''c0de'')]"
  let ?good = "[(''state'', ''xyz''), (''code'', ''c0de'')]"
  let ?session = "[(''oauth_state'', ''xyz'')]"
  have d: "map_of ?bad ''state'' \<noteq> map_of ?session ''oauth_state''"
    by simp
  have m: "map_of ?good ''state'' = map_of ?session ''oauth_state''"
    by simp
  have x: "snd (callback ?e ?good ?session (example_state [])) =
           snd (exchange_code_for_token ?e ''c0de'' (example_state []))"
    by (simp add: callback_def split: prod.splits sum.splits)
  have "sent (snd (callback ?e ?good ?session (example_state []))) =
          sent (example_state []) @ [exchange_request ?e ''c0de'']"
    unfolding x by (rule exchange_sends_once)
  then have snt: "sent (snd (callback ?e ?good ?session (example_state []))) =
                    [exchange_request ?e ''c0de'']"
    by (simp add: example_state_def)
  from callback_checks_state[of ?bad ?session ?e "example_state []"]
       callback_checks_state[of ?good ?session ?e "example_state []"] d m snt
  show ?thesis by blast
qed

section \<open>Pagination\<close>

lemma make_request_ok:
  assumes "get_valid_access_token ev s = (Inr access, s\<lparr>ticks := Suc (ticks s)\<rparr>)"
      and "net ev (length (sent s)) = Response st (Some j) rem rst"
      and "\<not> (400 \<le> st \<and> st < 600)"
  shows "make_request ev endpoint params s =
           (Inr j,
            s\<lparr>ticks := Suc (ticks s),
              sent := sent s @ [GET (WHOOP_API_BASE_URL ev @ endpoint) access params],
              rate_limit_remaining := rem, rate_limit_reset := rst\<rparr>)"
  using assms
  by (simp add: make_request_def requests_send_def raise_for_status_def Let_def)

lemma make_request_http_error:
  assumes "get_valid_access_token ev s = (Inr access, s\<lparr>ticks := Suc (ticks s)\<rparr>)"
      and "net ev (length (sent s)) = Response st b rem rst"
      and "400 \<le> st \<and> st < 600"
  shows "make_request ev endpoint params s =
           (Inl (HTTPError st),
            s\<lparr>ticks := Suc (ticks s),
              sent := sent s @ [GET (WHOOP_API_BASE_URL ev @ endpoint) access params],
              rate_limit_remaining := rem, rate_limit_reset := rst\<rparr>)"
  using assms
  by (simp add: make_request_def requests_send_def raise_for_status_def Let_def)

lemma make_request_served:
  assumes "get_valid_access_token ev s = (Inr access, s\<lparr>ticks := Suc (ticks s)\<rparr>)"
      and "served_page (net ev (length (sent s))) = Some page"
  shows "\<exists>rem rst. make_request ev endpoint params s =
           (Inr (JObj page),
            s\<lparr>ticks := Suc (ticks s),
              sent := sent s @ [GET (WHOOP_API_BASE_URL ev @ endpoint) access params],
              rate_limit_remaining := rem, rate_limit_reset := rst\<rparr>)"
proof -
  from assms(2) obtain st rem rst where
    "net ev (length (sent s)) = Response st (Some (JObj page)) rem rst" "\<not> (400 \<le> st \<and> st < 600)"
    by (auto simp: served_page_def split: http_result.splits option.splits json.splits if_splits)
  then show ?thesis
    using make_request_ok[OF assms(1)] by blast
qed

lemma handle_page_records:
  assumes "map_of page ''records'' = Some (JList rs)" "rs \<noteq> []"
  shows "handle_page acc (JObj page) = Inr (False, acc @ rs)"
  using assms by (simp add: handle_page_def py_get_def dict_get_def)

lemma paginate_loop_pages:
  assumes "pages \<noteq> []"
      and "map_of (tokens s) ''access_token'' = Some access" "truthy access"
      and "map_of (tokens s) ''expires_at'' = Some (JStr str)"
      and "fromisoformat ev str = Some (Naive expires_at)"
      and "300000000 \<le> expires_at" "expires_at \<le> datetime_max"
      and "\<forall>i<length pages. clock ev (ticks s + i) < expires_at - 300000000"
      and "\<forall>i<length pages. served_page (net ev (length (sent s) + i)) = Some (pages ! i)"
      and "\<forall>page\<in>set pages. \<exists>rs. map_of page ''records'' = Some (JList rs) \<and> rs \<noteq> []"
      and "\<forall>page\<in>set (butlast pages). truthy (continuation page)"
      and "\<not> truthy (continuation (last pages))"
  shows "\<exists>s'. paginate_loop ev endpoint params acc next_token s =
                 Some (Inr (acc @ concat (map records_of pages)), s') \<and>
               sent s' = sent s @ page_requests (WHOOP_API_BASE_URL ev @ endpoint) access
                  (if truthy next_token then AList.update ''nextToken'' next_token params else params)
                  pages \<and>
               tokens s' = tokens s \<and> token_file s' = token_file s \<and>
               ticks s' = ticks s + length pages \<and> refresh_calls s' = refresh_calls s"
  using assms
proof (induction pages arbitrary: params acc next_token s)
  case Nil
  then show ?case by simp
next
  case (Cons page pages)
  let ?params1 = "if truthy next_token then AList.update ''nextToken'' next_token params else params"
  let ?url = "WHOOP_API_BASE_URL ev @ endpoint"
  have "clock ev (ticks s) < expires_at - 300000000"
    using Cons.prems(8) by force
  then have fresh0: "get_valid_access_token ev s = (Inr access, s\<lparr>ticks := Suc (ticks s)\<rparr>)"
    using Cons.prems(2-7) by (intro get_valid_fresh)
  have served0: "served_page (net ev (length (sent s))) = Some page"
    using Cons.prems(9) by force
  obtain rem rst where mk: "make_request ev endpoint (Some ?params1) s =
      (Inr (JObj page),
       s\<lparr>ticks := Suc (ticks s), sent := sent s @ [GET ?url access (Some ?params1)],
         rate_limit_remaining := rem, rate_limit_reset := rst\<rparr>)"
    using make_request_served[OF fresh0 served0] by blast
  let ?s1 = "s\<lparr>ticks := Suc (ticks s), sent := sent s @ [GET ?url access (Some ?params1)],
         rate_limit_remaining := rem, rate_limit_reset := rst\<rparr>"
  obtain rs where rs: "map_of page ''records'' = Some (JList rs)" "rs \<noteq> []"
    using Cons.prems(10) by auto
  have hp: "handle_page acc (JObj page) = Inr (False, acc @ rs)"
    using rs by (rule handle_page_records)
  have ro: "records_of page = rs"
    using rs by (simp add: records_of_def)
  have nt: "py_get (JObj page) ''next_token'' JNull = Inr (continuation page)"
    by (simp add: py_get_def continuation_def)
  show ?case
  proof (cases "pages = []")
    case True
    then have "\<not> truthy (continuation page)"
      using Cons.prems(12) by simp
    then have "paginate_loop ev endpoint params acc next_token s = Some (Inr (acc @ rs), ?s1)"
      by (subst paginate_loop.simps) (simp add: mk hp nt Let_def)
    then show ?thesis
      using True ro by simp
  next
    case False
    then have cont: "truthy (continuation page)"
      using Cons.prems(11) by simp
    have step: "paginate_loop ev endpoint params acc next_token s =
                paginate_loop ev endpoint ?params1 (acc @ rs) (continuation page) ?s1"
      by (subst paginate_loop.simps) (simp add: mk hp nt cont Let_def)
    have p2: "\<forall>i<length pages. clock ev (ticks ?s1 + i) < expires_at - 300000000"
    proof (intro allI impI)
      fix i assume "i < length pages"
      then have "clock ev (ticks s + Suc i) < expires_at - 300000000"
        using Cons.prems(8) by auto
      then show "clock ev (ticks ?s1 + i) < expires_at - 300000000"
        by simp
    qed
    have t1: "map_of (tokens ?s1) ''access_token'' = Some access"
             "map_of (tokens ?s1) ''expires_at'' = Some (JStr str)"
      using Cons.prems(2,4) by simp_all
    have p3: "\<forall>i<length pages. served_page (net ev (length (sent ?s1) + i)) = Some (pages ! i)"
    proof (intro allI impI)
      fix i assume "i < length pages"
      then have "served_page (net ev (length (sent s) + Suc i)) = Some ((page # pages) ! Suc i)"
        using Cons.prems(9) by auto
      then show "served_page (net ev (length (sent ?s1) + i)) = Some (pages ! i)"
        by simp
    qed
    have p4: "\<forall>page\<in>set pages. \<exists>rs. map_of page ''records'' = Some (JList rs) \<and> rs \<noteq> []"
      using Cons.prems(10) by simp
    have p5: "\<forall>page\<in>set (butlast pages). truthy (continuation page)"
      using Cons.prems(11) False by simp
    have p6: "\<not> truthy (continuation (last pages))"
      using Cons.prems(12) False by simp
    obtain s' where ih:
      "paginate_loop ev endpoint ?params1 (acc @ rs) (continuation page) ?s1 =
         Some (Inr ((acc @ rs) @ concat (map records_of pages)), s')"
      "sent s' = sent ?s1 @ page_requests ?url access
          (if truthy (continuation page) then AList.update ''nextToken'' (continuation page) ?params1
           else ?params1) pages"
      "tokens s' = tokens ?s1" "token_file s' = token_file ?s1"
      "ticks s' = ticks ?s1 + length pages" "refresh_calls s' = refresh_calls ?s1"
      using Cons.IH[OF False t1(1) Cons.prems(3) t1(2) Cons.prems(5,6,7) p2 p3 p4 p5 p6,
                    of ?params1 "acc @ rs" "continuation page"] by blast
    show ?thesis
      using step ih ro cont by simp
  qed
qed

lemma paginate_request_pages_aux:
  assumes "pages \<noteq> []"
      and "map_of (tokens s) ''access_token'' = Some access" "truthy access"
      and "map_of (tokens s) ''expires_at'' = Some (JStr str)"
      and "fromisoformat ev str = Some (Naive expires_at)"
      and "300000000 \<le> expires_at" "expires_at \<le> datetime_max"
      and "\<forall>i<length pages. clock ev (ticks s + i) < expires_at - 300000000"
      and "\<forall>i<length pages. served_page (net ev (length (sent s) + i)) = Some (pages ! i)"
      and "\<forall>page\<in>set pages. \<exists>rs. map_of page ''records'' = Some (JList rs) \<and> rs \<noteq> []"
      and "\<forall>page\<in>set (butlast pages). truthy (continuation page)"
      and "\<not> truthy (continuation (last pages))"
  shows "\<exists>s'. paginate_request ev endpoint params limit s =
                 Some (Inr (concat (map records_of pages)), s') \<and>
               sent s' = sent s @ page_requests (WHOOP_API_BASE_URL ev @ endpoint) access
                  (AList.update ''limit'' (JInt (min limit 25))
                     (case params of None \<Rightarrow> [] | Some p \<Rightarrow> p)) pages \<and>
               tokens s' = tokens s \<and> token_file s' = token_file s \<and>
               ticks s' = ticks s + length pages \<and> refresh_calls s' = refresh_calls s"
  using paginate_loop_pages[OF assms, of endpoint
          "AList.update ''limit'' (JInt (min limit 25)) (case params of None \<Rightarrow> [] | Some p \<Rightarrow> p)"
          "[]" JNull]
  by (simp add: paginate_request_def)

lemma length_page_requests: "length (page_requests url token params pages) = length pages"
  by (induction pages arbitrary: params) simp_all

lemma paginate_request_http_error:
  assumes "map_of (tokens s) ''access_token'' = Some access" "truthy access"
      and "map_of (tokens s) ''expires_at'' = Some (JStr str)"
      and "fromisoformat ev str = Some (Naive expires_at)"
      and "300000000 \<le> expires_at" "expires_at \<le> datetime_max"
      and "clock ev (ticks s) < expires_at - 300000000"
      and "net ev (length (sent s)) = Response st b rem rst"
      and "400 \<le> st \<and> st < 600"
  shows "\<exists>s'. paginate_request ev endpoint params limit s = Some (Inl (HTTPError st), s') \<and>
               length (sent s') = Suc (length (sent s)) \<and>
               tokens s' = tokens s \<and> ticks s' = Suc (ticks s)"
proof -
  have g: "get_valid_access_token ev s = (Inr access, s\<lparr>ticks := Suc (ticks s)\<rparr>)"
    using assms(1-7) by (rule get_valid_fresh)
  show ?thesis
    unfolding paginate_request_def Let_def
    by (subst paginate_loop.simps)
       (simp add: make_request_http_error[OF g assms(8,9)])
qed

lemma paginate_request_response:
  assumes "map_of (tokens s) ''access_token'' = Some access" "truthy access"
      and "map_of (tokens s) ''expires_at'' = Some (JStr str)"
      and "fromisoformat ev str = Some (Naive expires_at)"
      and "300000000 \<le> expires_at" "expires_at \<le> datetime_max"
      and "clock ev (ticks s) < expires_at - 300000000"
      and "net ev (length (sent s)) = Response st (Some j) rem rst"
      and "\<not> (400 \<le> st \<and> st < 600)"
      and "handle_page [] j = Inl err \<or> handle_page [] j = Inr (True, rs)"
  shows "\<exists>s'. paginate_request ev endpoint params limit s =
                 Some (case handle_page [] j of Inl err \<Rightarrow> Inl err | Inr (stop, rs) \<Rightarrow> Inr rs, s') \<and>
               length (sent s') = Suc (length (sent s))"
proof -
  have g: "get_valid_access_token ev s = (Inr access, s\<lparr>ticks := Suc (ticks s)\<rparr>)"
    using assms(1-7) by (rule get_valid_fresh)
  show ?thesis
    using assms(10)
    unfolding paginate_request_def Let_def
    by (subst paginate_loop.simps)
       (auto simp: make_request_ok[OF g assms(8,9)])
qed

text \<open>
  C5. Let the provider answer the next requests with the pages \<open>pages\<close>, one after the
  other, each with a non-empty \<^verbatim>\<open>records\<close> array, each but the last with a
  \<^verbatim>\<open>next_token\<close>, the last without, while the stored access token stays valid for more
  than five minutes. Then \<^verbatim>\<open>_paginate_request\<close> returns the records of all pages, page after
  page in the order of arrival and in the order each page lists them, and it has sent
  exactly one request per page: the \<^verbatim>\<open>GET\<close> requests of \<open>page_requests\<close>, each with the
  continuation token of the page before, and nothing else.
\<close>

theorem paginate_concatenates_pages:
  assumes "pages \<noteq> []"
      and "map_of (tokens s) ''access_token'' = Some access" "truthy access"
      and "map_of (tokens s) ''expires_at'' = Some (JStr str)"
      and "fromisoformat ev str = Some (Naive expires_at)"
      and "300000000 \<le> expires_at" "expires_at \<le> datetime_max"
      and "\<forall>i<length pages. clock ev (ticks s + i) < expires_at - 300000000"
      and "\<forall>i<length pages. served_page (net ev (length (sent s) + i)) = Some (pages ! i)"
      and "\<forall>page\<in>set pages. \<exists>rs. map_of page ''records'' = Some (JList rs) \<and> rs \<noteq> []"
      and "\<forall>page\<in>set (butlast pages). truthy (continuation page)"
      and "\<not> truthy (continuation (last pages))"
  shows "\<exists>s'. paginate_request ev endpoint params limit s =
                 Some (Inr (concat (map records_of pages)), s') \<and>
               sent s' = sent s @ page_requests (WHOOP_API_BASE_URL ev @ endpoint) access
                  (AList.update ''limit'' (JInt (min limit 25))
                     (case params of None \<Rightarrow> [] | Some p \<Rightarrow> p)) pages \<and>
               length (sent s') = length (sent s) + length pages"
proof -
  from paginate_request_pages_aux[OF assms, of endpoint params limit]
  obtain s' where
    r: "paginate_request ev endpoint params limit s =
          Some (Inr (concat (map records_of pages)), s')"
    and q: "sent s' = sent s @ page_requests (WHOOP_API_BASE_URL ev @ endpoint) access
              (AList.update ''limit'' (JInt (min limit 25))
                 (case params of None \<Rightarrow> [] | Some p \<Rightarrow> p)) pages"
    by blast
  have "length (sent s') = length (sent s) + length pages"
    unfolding q by (simp add: length_page_requests)
  with r q show ?thesis by blast
qed

text \<open>Fetches on the example environment, for a state that holds the token valid until 13:00:00.\<close>

lemma example_fetch_page:
  assumes "tokens s = example_tokens ''2026-11-04T13:00:00''"
      and "provider (length (sent s)) = Response 200 (Some (JObj (example_page lo hi))) None None"
      and "lo < hi"
  shows "\<exists>s'. paginate_request (example_env provider) endpoint params limit s =
                 Some (Inr (map example_record [lo..<hi]), s') \<and>
               tokens s' = tokens s \<and> length (sent s') = Suc (length (sent s))"
proof -
  let ?e = "example_env provider"
  let ?pages = "[example_page lo hi]"
  have 1: "?pages \<noteq> []" by simp
  have 2: "map_of (tokens s) ''access_token'' = Some (JStr ''A1'')" "truthy (JStr ''A1'')"
          "map_of (tokens s) ''expires_at'' = Some (JStr ''2026-11-04T13:00:00'')"
    using assms(1) by (simp_all add: example_tokens_def)
  have 3: "fromisoformat ?e ''2026-11-04T13:00:00'' = Some (Naive 63929394000000000)"
          "300000000 \<le> (63929394000000000::int)" "63929394000000000 \<le> datetime_max"
    by (simp_all add: example_env_def datetime_max_def)
  have 4: "\<forall>i<length ?pages. clock ?e (ticks s + i) < 63929394000000000 - 300000000"
    by (simp add: example_env_def)
  have 5: "\<forall>i<length ?pages. served_page (net ?e (length (sent s) + i)) = Some (?pages ! i)"
    using assms(2) by (simp add: example_env_def served_page_def)
  have 6: "\<forall>page\<in>set ?pages. \<exists>rs. map_of page ''records'' = Some (JList rs) \<and> rs \<noteq> []"
    using assms(3) by (simp add: example_page_def)
  have 7: "\<forall>page\<in>set (butlast ?pages). truthy (continuation page)"
    by simp
  have 8: "\<not> truthy (continuation (last ?pages))"
    by (simp add: continuation_def example_page_def dict_get_def)
  have 9: "concat (map records_of ?pages) = map example_record [lo..<hi]"
    by (simp add: records_of_def example_page_def)
  from paginate_request_pages_aux[OF 1 2 3 4 5 6 7 8, of endpoint params limit]
  show ?thesis
    unfolding 9 by (auto simp: length_page_requests)
qed

lemma example_fetch_error:
  assumes "tokens s = example_tokens ''2026-11-04T13:00:00''"
      and "provider (length (sent s)) = Response 500 None None None"
  shows "\<exists>s'. paginate_request (example_env provider) endpoint params limit s =
                 Some (Inl (HTTPError 500), s') \<and>
               tokens s' = tokens s \<and> length (sent s') = Suc (length (sent s))"
proof -
  let ?e = "example_env provider"
  have 2: "map_of (tokens s) ''access_token'' = Some (JStr ''A1'')" "truthy (JStr ''A1'')"
          "map_of (tokens s) ''expires_at'' = Some (JStr ''2026-11-04T13:00:00'')"
    using assms(1) by (simp_all add: example_tokens_def)
  have 3: "fromisoformat ?e ''2026-11-04T13:00:00'' = Some (Naive 63929394000000000)"
          "300000000 \<le> (63929394000000000::int)" "63929394000000000 \<le> datetime_max"
          "clock ?e (ticks s) < 63929394000000000 - 300000000"
    by (simp_all add: example_env_def datetime_max_def)
  have 4: "net ?e (length (sent s)) = Response 500 None None None"
    using assms(2) by (simp add: example_env_def)
  have 5: "400 \<le> (500::nat) \<and> (500::nat) < 600"
    by simp
  from paginate_request_http_error[OF 2 3 4 5, of endpoint params limit]
  show ?thesis by blast
qed

text \<open>
  The fixture of the specification: pages of 25, 25 and 10 records give the 60 records in
  their order, from three requests.
\<close>

theorem paginate_concatenates_pages_witness:
  "\<exists>s'. paginate_request (example_env example_three_pages) ''/v2/recovery''
           (Some [(''start'', JStr ''2026-01-01''), (''end'', JStr ''2026-02-10'')]) 25
           (example_state (example_tokens ''2026-11-04T13:00:00'')) =
             Some (Inr (map example_record [0..<60]), s') \<and>
         length (map example_record [0..<60]) = 60 \<and>
         length (sent s') = 3"
proof -
  let ?e = "example_env example_three_pages"
  let ?s = "example_state (example_tokens ''2026-11-04T13:00:00'')"
  let ?p0 = "example_page 0 25 @ [(''next_token'', JStr ''t1'')]"
  let ?p1 = "example_page 25 50 @ [(''next_token'', JStr ''t2'')]"
  let ?p2 = "example_page 50 60"
  let ?pages = "[?p0, ?p1, ?p2]"
  have 1: "?pages \<noteq> []" by simp
  have 2: "map_of (tokens ?s) ''access_token'' = Some (JStr ''A1'')" "truthy (JStr ''A1'')"
          "map_of (tokens ?s) ''expires_at'' = Some (JStr ''2026-11-04T13:00:00'')"
    by (simp_all add: example_state_def example_tokens_def)
  have 3: "fromisoformat ?e ''2026-11-04T13:00:00'' = Some (Naive 63929394000000000)"
          "300000000 \<le> (63929394000000000::int)" "63929394000000000 \<le> datetime_max"
    by (simp_all add: example_env_def datetime_max_def)
  have 4: "\<forall>i<length ?pages. clock ?e (ticks ?s + i) < 63929394000000000 - 300000000"
    by (simp add: example_env_def)
  have 5: "\<forall>i<length ?pages. served_page (net ?e (length (sent ?s) + i)) = Some (?pages ! i)"
    by (auto simp: example_env_def example_state_def example_three_pages_def served_page_def
                   less_Suc_eq)
  have 6: "\<forall>page\<in>set ?pages. \<exists>rs. map_of page ''records'' = Some (JList rs) \<and> rs \<noteq> []"
    by (simp add: example_page_def)
  have 7: "\<forall>page\<in>set (butlast ?pages). truthy (continuation page)"
    by (simp add: continuation_def example_page_def dict_get_def)
  have 8: "\<not> truthy (continuation (last ?pages))"
    by (simp add: continuation_def example_page_def dict_get_def)
  have "[0..<60] = [0..<25] @ [25..<50] @ [50..<60::nat]"
    using upt_add_eq_append[of 0 25 35] upt_add_eq_append[of 25 50 10] by simp
  then have 9: "concat (map records_of ?pages) = map example_record [0..<60]"
    by (simp add: records_of_def example_page_def)
  have 10: "length (sent ?s) = 0"
    by (simp add: example_state_def)
  from paginate_concatenates_pages[OF 1 2 3 4 5 6 7 8, of "''/v2/recovery''"
         "Some [(''start'', JStr ''2026-01-01''), (''end'', JStr ''2026-02-10'')]" 25]
  show ?thesis
    unfolding 9 10 by auto
qed

text \<open>
  C8. When the body of the first response is a bare JSON array, the first
  statement that looks at it, \<^verbatim>\<open>response.get('records', [])\<close>, raises
  \<^verbatim>\<open>AttributeError\<close>: a list has no \<^verbatim>\<open>get\<close>. The branch
  \<^verbatim>\<open>if isinstance(response, list)\<close> below it is never reached, and the elements of the
  array are not returned.
\<close>

theorem bare_array_raises_attribute_error:
  assumes "map_of (tokens s) ''access_token'' = Some access" "truthy access"
      and "map_of (tokens s) ''expires_at'' = Some (JStr str)"
      and "fromisoformat ev str = Some (Naive expires_at)"
      and "300000000 \<le> expires_at" "expires_at \<le> datetime_max"
      and "clock ev (ticks s) < expires_at - 300000000"
      and "net ev (length (sent s)) = Response st (Some (JList xs)) rem rst"
      and "\<not> (400 \<le> st \<and> st < 600)"
  shows "\<exists>s'. paginate_request ev endpoint params limit s = Some (Inl AttributeError, s') \<and>
               length (sent s') = Suc (length (sent s))"
proof -
  have h: "handle_page [] (JList xs) = Inl AttributeError"
    by (simp add: handle_page_def py_get_def)
  then have "handle_page [] (JList xs) = Inl AttributeError \<or>
             handle_page [] (JList xs) = Inr (True, [])"
    by simp
  from paginate_request_response[OF assms this, of endpoint params limit]
  show ?thesis by (simp add: h)
qed

theorem bare_array_raises_attribute_error_witness:
  "\<exists>s'. paginate_request
           (example_env (\<lambda>n. Response 200 (Some (JList [example_record 0])) None None))
           ''/v2/recovery'' (Some [(''start'', JStr ''2026-01-01''), (''end'', JStr ''2026-02-10'')]) 25
           (example_state (example_tokens ''2026-11-04T13:00:00'')) =
             Some (Inl AttributeError, s') \<and>
         length (sent s') = 1"
proof -
  let ?e = "example_env (\<lambda>n. Response 200 (Some (JList [example_record 0])) None None)"
  let ?s = "example_state (example_tokens ''2026-11-04T13:00:00'')"
  have 2: "map_of (tokens ?s) ''access_token'' = Some (JStr ''A1'')" "truthy (JStr ''A1'')"
          "map_of (tokens ?s) ''expires_at'' = Some (JStr ''2026-11-04T13:00:00'')"
    by (simp_all add: example_state_def example_tokens_def)
  have 3: "fromisoformat ?e ''2026-11-04T13:00:00'' = Some (Naive 63929394000000000)"
          "300000000 \<le> (63929394000000000::int)" "63929394000000000 \<le> datetime_max"
          "clock ?e (ticks ?s) < 63929394000000000 - 300000000"
    by (simp_all add: example_env_def datetime_max_def)
  have 4: "net ?e (length (sent ?s)) = Response 200 (Some (JList [example_record 0])) None None"
    by (simp add: example_env_def)
  have 5: "\<not> (400 \<le> (200::nat) \<and> (200::nat) < 600)"
    by simp
  have 6: "length (sent ?s) = 0"
    by (simp add: example_state_def)
  from bare_array_raises_attribute_error[OF 2 3 4 5, of "''/v2/recovery''"
         "Some [(''start'', JStr ''2026-01-01''), (''end'', JStr ''2026-02-10'')]" 25]
  show ?thesis
    unfolding 6 by simp
qed

text \<open>
  The other degenerate shape is handled as written: a non-empty object whose
  \<^verbatim>\<open>records\<close> entry is missing or empty is returned as the only record, after the one
  request that fetched it.
\<close>

lemma bare_object_is_one_record:
  assumes "map_of (tokens s) ''access_token'' = Some access" "truthy access"
      and "map_of (tokens s) ''expires_at'' = Some (JStr str)"
      and "fromisoformat ev str = Some (Naive expires_at)"
      and "300000000 \<le> expires_at" "expires_at \<le> datetime_max"
      and "clock ev (ticks s) < expires_at - 300000000"
      and "net ev (length (sent s)) = Response st (Some (JObj page)) rem rst"
      and "\<not> (400 \<le> st \<and> st < 600)"
      and "page \<noteq> []" "\<not> truthy (dict_get page ''records'' (JList []))"
  shows "\<exists>s'. paginate_request ev endpoint params limit s = Some (Inr [JObj page], s') \<and>
               length (sent s') = Suc (length (sent s))"
proof -
  have h: "handle_page [] (JObj page) = Inr (True, [JObj page])"
    using assms(10,11) by (simp add: handle_page_def py_get_def)
  then have "handle_page [] (JObj page) = Inl AttributeError \<or>
             handle_page [] (JObj page) = Inr (True, [JObj page])"
    by simp
  from paginate_request_response[OF assms(1-9) this, of endpoint params limit]
  show ?thesis by (simp add: h)
qed

section \<open>All health data\<close>

text \<open>
  C6. Whatever the four fetches give, each a list of records or an exception,
  \<^verbatim>\<open>get_all_health_data\<close> returns normally a dictionary with exactly the keys
  \<^verbatim>\<open>recovery\<close>, \<^verbatim>\<open>sleep\<close>, \<^verbatim>\<open>cycles\<close> and \<^verbatim>\<open>workouts\<close>: a key holds the records its
  fetch returned, and the empty list when its fetch raised. No exception is ever the
  result of the call.
\<close>

theorem get_all_health_data_isolates_failures:
  assumes "get_recovery_data ev (start @ ''T00:00:00.000Z'') (end @ ''T23:59:59.999Z'') s =
             Some (r1, s1)"
      and "get_sleep_data ev (start @ ''T00:00:00.000Z'') (end @ ''T23:59:59.999Z'') s1 =
             Some (r2, s2)"
      and "get_cycle_data ev (start @ ''T00:00:00.000Z'') (end @ ''T23:59:59.999Z'') s2 =
             Some (r3, s3)"
      and "get_workout_data ev (start @ ''T00:00:00.000Z'') (end @ ''T23:59:59.999Z'') s3 =
             Some (r4, s4)"
  shows "get_all_health_data ev start end s =
           Some (Inr [(''recovery'', records_or_empty r1), (''sleep'', records_or_empty r2),
                      (''cycles'', records_or_empty r3), (''workouts'', records_or_empty r4)], s4) \<and>
         (\<forall>err s'. get_all_health_data ev start end s \<noteq> Some (Inl err, s'))"
  using assms
  by (simp add: get_all_health_data_def Let_def try_store_def records_or_empty_def
           split: sum.splits)

text \<open>
  The sleep fetch is answered with status 500, the other three with one record each: the
  result has the three records and an empty \<^verbatim>\<open>sleep\<close> list.
\<close>

theorem get_all_health_data_isolates_failures_witness:
  "\<exists>s'. get_all_health_data (example_env example_sleep_fails) ''2026-01-01'' ''2026-02-10''
           (example_state (example_tokens ''2026-11-04T13:00:00'')) =
         Some (Inr [(''recovery'', [example_record 0]), (''sleep'', []),
                    (''cycles'', [example_record 2]), (''workouts'', [example_record 3])], s')"
proof -
  let ?e = "example_env example_sleep_fails"
  let ?s = "example_state (example_tokens ''2026-11-04T13:00:00'')"
  let ?sd = "''2026-01-01'' @ ''T00:00:00.000Z''"
  let ?ed = "''2026-02-10'' @ ''T23:59:59.999Z''"
  let ?params = "Some [(''start'', JStr ?sd), (''end'', JStr ?ed)]"
  have t0: "tokens ?s = example_tokens ''2026-11-04T13:00:00''" and n0: "length (sent ?s) = 0"
    by (simp_all add: example_state_def)
  have "\<exists>s'. paginate_request ?e ''/v2/recovery'' ?params 25 ?s =
               Some (Inr (map example_record [0..<Suc 0]), s') \<and>
             tokens s' = tokens ?s \<and> length (sent s') = Suc (length (sent ?s))"
    by (rule example_fetch_page[where provider = example_sleep_fails])
       (simp_all add: t0 n0 example_sleep_fails_def)
  then obtain s1 where
        h1: "get_recovery_data ?e ?sd ?ed ?s = Some (Inr (map example_record [0..<Suc 0]), s1)"
    and t1: "tokens s1 = example_tokens ''2026-11-04T13:00:00''" and n1: "length (sent s1) = 1"
    unfolding get_recovery_data_def using t0 n0 by auto
  have "\<exists>s'. paginate_request ?e ''/v2/activity/sleep'' ?params 25 s1 =
               Some (Inl (HTTPError 500), s') \<and>
             tokens s' = tokens s1 \<and> length (sent s') = Suc (length (sent s1))"
    by (rule example_fetch_error[where provider = example_sleep_fails])
       (simp_all add: t1 n1 example_sleep_fails_def)
  then obtain s2 where
        h2: "get_sleep_data ?e ?sd ?ed s1 = Some (Inl (HTTPError 500), s2)"
    and t2: "tokens s2 = example_tokens ''2026-11-04T13:00:00''" and n2: "length (sent s2) = 2"
    unfolding get_sleep_data_def using t1 n1 by auto
  have "\<exists>s'. paginate_request ?e ''/v2/cycle'' ?params 25 s2 =
               Some (Inr (map example_record [2..<Suc 2]), s') \<and>
             tokens s' = tokens s2 \<and> length (sent s') = Suc (length (sent s2))"
    by (rule example_fetch_page[where provider = example_sleep_fails])
       (simp_all add: t2 n2 example_sleep_fails_def)
  then obtain s3 where
        h3: "get_cycle_data ?e ?sd ?ed s2 = Some (Inr (map example_record [2..<Suc 2]), s3)"
    and t3: "tokens s3 = example_tokens ''2026-11-04T13:00:00''" and n3: "length (sent s3) = 3"
    unfolding get_cycle_data_def using t2 n2 by auto
  have "\<exists>s'. paginate_request ?e ''/v2/activity/workout'' ?params 25 s3 =
               Some (Inr (map example_record [3..<Suc 3]), s') \<and>
             tokens s' = tokens s3 \<and> length (sent s') = Suc (length (sent s3))"
    by (rule example_fetch_page[where provider = example_sleep_fails])
       (simp_all add: t3 n3 example_sleep_fails_def)
  then obtain s4 where
        h4: "get_workout_data ?e ?sd ?ed s3 = Some (Inr (map example_record [3..<Suc 3]), s4)"
    unfolding get_workout_data_def by auto
  from get_all_health_data_isolates_failures[OF h1 h2 h3 h4]
  show ?thesis
    by (auto simp: records_or_empty_def)
qed

end
